theory Spec2Isabelle
  imports Main "HOL-Library.AList" "HOL-Library.Char_ord" "HOL-Library.List_Lexorder"
begin

section \<open>Python values, dictionaries and exceptions\<close>

text \<open>
  The values that option defaults, command-line values and configuration-file entries
  can take. \<open>truthy\<close> is Python's truth test, as \<open>if action.default\<close> applies it.
\<close>

datatype pyval =
    PNone
  | PBool bool
  | PInt int
  | PStr string
  | PList "pyval list"
  | PDict "(string \<times> pyval) list"

fun truthy :: "pyval \<Rightarrow> bool" where
  "truthy PNone = False"
| "truthy (PBool b) = b"
| "truthy (PInt i) = (i \<noteq> 0)"
| "truthy (PStr s) = (s \<noteq> [])"
| "truthy (PList xs) = (xs \<noteq> [])"
| "truthy (PDict kvs) = (kvs \<noteq> [])"

text \<open>
  A Python \<open>dict\<close> with string keys is an association list in insertion order.
  \<open>d[k] = v\<close> is \<open>AList.update k v d\<close>: an existing key keeps its place and takes the
  new value, a new key goes to the end. \<open>d.update(other)\<close> stores the items of
  \<open>other\<close> one after the other.
\<close>

type_synonym 'v dict = "(string \<times> 'v) list"

definition dict_keys :: "'v dict \<Rightarrow> string list" where
  "dict_keys d = map fst d"

definition dict_update :: "'v dict \<Rightarrow> 'v dict \<Rightarrow> 'v dict" where
  "dict_update d other = fold (\<lambda>(k, v). AList.update k v) other d"

text \<open>
  The exceptions that travel through \<open>parse_config\<close> and \<open>main\<close>.
  \<open>BriefcaseConfigError msg\<close> is the error \<open>commands.py\<close> raises;
  \<open>BriefcaseError code msg\<close> stands for every other subclass of \<open>BriefcaseError\<close>,
  with its \<open>error_code\<close> and its text.
\<close>

datatype exn =
    FileNotFoundError
  | NotADirectoryError
  | IsADirectoryError
  | PermissionError
  | TypeError
  | AttributeError string
  | BriefcaseConfigError string
  | BriefcaseError int string
  | OtherError string

section \<open>Collaborators outside the two source files\<close>

text \<open>
  An \<open>argparse\<close> action, as far as \<open>BaseCommand.__init__\<close> reads it: its \<open>dest\<close> and
  its declared \<open>default\<close>.
\<close>

record action =
  dest :: string
  default_val :: pyval

text \<open>
  A parameter of \<open>AppConfig.__init__\<close> as \<open>inspect.signature\<close> shows it: its name,
  its default, \<open>None\<close> standing for \<open>inspect._empty\<close>, and its kind;
  \<open>Var_positional\<close> is a \<open>*args\<close> parameter and \<open>Var_keyword\<close> a \<open>**kwargs\<close> one.
  The first parameter of the list is the receiver.
\<close>

datatype param_kind = Positional_or_keyword | Var_positional | Keyword_only | Var_keyword

record param =
  pname :: string
  pdefault :: "pyval option"
  pkind :: param_kind

text \<open>
  The command object. \<open>apps\<close> is \<open>None\<close> while the attribute has not been assigned.
  \<open>config_options\<close> holds the elements of the set that the property of that name
  returns.
\<close>

record 'c command =
  platform :: string
  output_format :: string
  default_options :: "string set"
  options :: "pyval dict"
  config_options :: "string list"
  apps :: "'c dict option"

text \<open>What a command class overrides: \<open>add_options\<close> and \<open>config_options\<close>.\<close>

record command_class =
  add_options :: "action list \<Rightarrow> action list"
  cls_config_options :: "string list"

text \<open>
  What a path of the file system names: a readable file with its content, a file that
  the process may not read, or a directory.
\<close>

datatype node = File string | Unreadable | Directory

text \<open>
  Modelled from the spec: the \<open>error_code\<close> that \<open>exceptions.py\<close>, which is not among
  the source files, gives a \<open>BriefcaseConfigError\<close>. The specification says that any
  ConfigError exits with a non-zero code, so the code is an integer other than zero.
\<close>

typedef nonzero = "{c :: int. c \<noteq> 0}"
  by (rule exI[of _ 1]) simp

text \<open>The two output streams of the process, as lists of printed lines.\<close>

record io =
  stdout :: "string list"
  stderr :: "string list"

text \<open>
  Everything \<open>commands.py\<close> and \<open>__main__.py\<close> use and do not define is a parameter:
  \<^item> \<open>fs\<close>: the file system, a path to the node found there;
  \<^item> \<open>config_parse_config\<close>: \<open>config.parse_config(file, platform, output_format)\<close>,
    returning the dict of application name to raw configuration, or raising;
  \<^item> \<open>AppConfig_params\<close>: the parameters of \<open>AppConfig.__init__\<close>, in order;
  \<^item> \<open>AppConfig_init\<close>: the call \<open>AppConfig(**app_config)\<close>;
  \<^item> \<open>config_error_code\<close>: the \<open>error_code\<close> of a \<open>BriefcaseConfigError\<close>, an integer
    other than zero;
  \<^item> \<open>exn_str\<close>: \<open>str(e)\<close> of an exception, which \<open>exceptions.py\<close> defines for the
    errors of this program;
  \<^item> \<open>hash_slot\<close>: the place of a string in a hash table. Python iterates a set in
    the order of its table, which for strings changes from one process to the next;
  \<^item> \<open>parse_args\<close>: \<open>argparse\<close>'s \<open>parser.parse_args(extra)\<close> over the declared
    actions;
  \<^item> \<open>parse_cmdline\<close>: \<open>cmdline.parse_cmdline\<close>, which builds the command;
  \<^item> \<open>command_call\<close>: the body \<open>command()\<close> of the command.
\<close>

record 'c env =
  fs :: "string \<Rightarrow> node option"
  config_parse_config :: "string \<Rightarrow> string \<Rightarrow> string \<Rightarrow> exn + (pyval dict) dict"
  AppConfig_params :: "param list"
  AppConfig_init :: "pyval dict \<Rightarrow> exn + 'c"
  config_error_code :: nonzero
  exn_str :: "exn \<Rightarrow> string"
  hash_slot :: "string \<Rightarrow> nat"
  parse_args :: "action list \<Rightarrow> string list \<Rightarrow> exn + pyval dict"
  parse_cmdline :: "string list \<Rightarrow> exn + 'c command"
  command_call :: "'c command \<Rightarrow> io \<Rightarrow> exn option \<times> io"

text \<open>
  Iterating a Python set: its distinct elements in the order of their hash slots.
\<close>

definition set_iter :: "(string \<Rightarrow> nat) \<Rightarrow> string list \<Rightarrow> string list" where
  "set_iter slot xs = sort_key slot (remdups xs)"

text \<open>
  The builtin \<open>open(filename)\<close> for reading. The directories on the way to the file are
  looked up from left to right: a missing one is \<open>FileNotFoundError\<close>, one that is a
  file is \<open>NotADirectoryError\<close>. Then the path itself: nothing there is
  \<open>FileNotFoundError\<close>, a directory is \<open>IsADirectoryError\<close>, a file that may not be
  read is \<open>PermissionError\<close>. \<open>parent_dirs\<close> lists the prefixes of the path that end
  before a separator.
\<close>

fun parent_dirs :: "string \<Rightarrow> string \<Rightarrow> string list" where
  "parent_dirs seen [] = []"
| "parent_dirs seen (c # cs) =
     (if c = CHR ''/'' \<and> seen \<noteq> [] \<and> last seen \<noteq> CHR ''/''
      then seen # parent_dirs (seen @ [c]) cs
      else parent_dirs (seen @ [c]) cs)"

fun walk :: "(string \<Rightarrow> node option) \<Rightarrow> string list \<Rightarrow> exn option" where
  "walk tree [] = None"
| "walk tree (d # ds) =
     (case tree d of
        None \<Rightarrow> Some FileNotFoundError
      | Some Directory \<Rightarrow> walk tree ds
      | Some (File content) \<Rightarrow> Some NotADirectoryError
      | Some Unreadable \<Rightarrow> Some NotADirectoryError)"

definition py_open :: "(string \<Rightarrow> node option) \<Rightarrow> string \<Rightarrow> exn + string" where
  "py_open tree path =
     (case walk tree (parent_dirs [] path) of
        Some e \<Rightarrow> Inl e
      | None \<Rightarrow>
          (case tree path of
             None \<Rightarrow> Inl FileNotFoundError
           | Some Directory \<Rightarrow> Inl IsADirectoryError
           | Some Unreadable \<Rightarrow> Inl PermissionError
           | Some (File content) \<Rightarrow> Inr content))"

section \<open>\<open>BaseCommand.__init__\<close>\<close>

text \<open>
  \<open>{action.dest for action in parser._actions if action.default}\<close>
\<close>

definition extract_default_options :: "action list \<Rightarrow> string set" where
  "extract_default_options actions =
     set (map dest (filter (\<lambda>a. truthy (default_val a)) actions))"

definition BaseCommand_init ::
  "'c env \<Rightarrow> command_class \<Rightarrow> string \<Rightarrow> string \<Rightarrow> action list \<Rightarrow> string list
     \<Rightarrow> exn + 'c command" where
  "BaseCommand_init env cls pl fmt parser extra =
     (let actions = add_options cls parser;
          defaults = extract_default_options actions
      in case parse_args env actions extra of
           Inl e \<Rightarrow> Inl e
         | Inr ns \<Rightarrow>
             Inr \<lparr>platform = pl, output_format = fmt, default_options = defaults,
                  options = ns, config_options = cls_config_options cls, apps = None\<rparr>)"

section \<open>\<open>BaseCommand.parse_config\<close>\<close>

text \<open>\<open>getattr(self.options, option)\<close> raises when the namespace has no such attribute.\<close>

definition getattr :: "pyval dict \<Rightarrow> string \<Rightarrow> exn + pyval" where
  "getattr ns name =
     (case map_of ns name of None \<Rightarrow> Inl (AttributeError name) | Some v \<Rightarrow> Inr v)"

text \<open>
  The dict comprehension \<open>{option: getattr(self.options, option) for option in ...}\<close>
  over the options already filtered, storing into \<open>acc\<close>; the first failing
  \<open>getattr\<close> ends it.
\<close>

fun option_values :: "pyval dict \<Rightarrow> string list \<Rightarrow> pyval dict \<Rightarrow> exn + pyval dict" where
  "option_values ns [] acc = Inr acc"
| "option_values ns (opt # opts) acc =
     (case getattr ns opt of
        Inl e \<Rightarrow> Inl e
      | Inr v \<Rightarrow> option_values ns opts (AList.update opt v acc))"

text \<open>Lines 54 to 71: the three steps that build \<open>app_config\<close> for one application.\<close>

definition resolve_app_config ::
  "'c env \<Rightarrow> 'c command \<Rightarrow> pyval dict \<Rightarrow> exn + pyval dict" where
  "resolve_app_config env cmd parsed_config =
     (let opts = set_iter (hash_slot env) (config_options cmd) in
      case option_values (options cmd)
             (filter (\<lambda>option. option \<in> default_options cmd) opts) [] of
        Inl e \<Rightarrow> Inl e
      | Inr app_config \<Rightarrow>
          (let app_config2 = dict_update app_config parsed_config in
           case option_values (options cmd)
                  (filter (\<lambda>option. option \<notin> default_options cmd) opts) [] of
             Inl e \<Rightarrow> Inl e
           | Inr explicit \<Rightarrow> Inr (dict_update app_config2 explicit)))"

text \<open>Lines 82 to 98: the handler of \<open>TypeError\<close>.\<close>

definition required_args :: "param list \<Rightarrow> string list" where
  "required_args ps =
     map pname (filter (\<lambda>p. pdefault p = None \<and> pname p \<notin> {''self'', ''kwargs''}) ps)"

definition missing_args :: "'c env \<Rightarrow> pyval dict \<Rightarrow> string list" where
  "missing_args env app_config =
     set_iter (hash_slot env)
       (filter (\<lambda>name. name \<notin> set (dict_keys app_config))
          (required_args (AppConfig_params env)))"

definition quoted :: "string \<Rightarrow> string" where
  "quoted arg = [CHR 0x27] @ arg @ [CHR 0x27]"

fun join :: "string \<Rightarrow> string list \<Rightarrow> string" where
  "join sep [] = []"
| "join sep [x] = x"
| "join sep (x # y # ys) = x @ sep @ join sep (y # ys)"

definition incomplete_message :: "string \<Rightarrow> string list \<Rightarrow> string" where
  "incomplete_message app_name missing =
     ''Configuration for '' @ quoted app_name @ '' is incomplete (missing ''
       @ join '', '' (map quoted missing) @ '')''"

text \<open>One turn of the loop, up to the value stored in \<open>self.apps[app_name]\<close>.\<close>

definition build_app :: "'c env \<Rightarrow> 'c command \<Rightarrow> string \<Rightarrow> pyval dict \<Rightarrow> exn + 'c" where
  "build_app env cmd app_name parsed_config =
     (case resolve_app_config env cmd parsed_config of
        Inl e \<Rightarrow> Inl e
      | Inr app_config \<Rightarrow>
          (case AppConfig_init env app_config of
             Inr c \<Rightarrow> Inr c
           | Inl e \<Rightarrow>
               if e = TypeError
               then Inl (BriefcaseConfigError
                           (incomplete_message app_name (missing_args env app_config)))
               else Inl e))"

text \<open>
  The loop over \<open>app_configs.items()\<close>. It returns the exception that ended it, if
  any, and \<open>self.apps\<close> as it stands at that moment.
\<close>

fun resolve_apps ::
  "'c env \<Rightarrow> 'c command \<Rightarrow> (pyval dict) dict \<Rightarrow> 'c dict \<Rightarrow> exn option \<times> 'c dict" where
  "resolve_apps env cmd [] acc = (None, acc)"
| "resolve_apps env cmd ((app_name, parsed_config) # rest) acc =
     (case build_app env cmd app_name parsed_config of
        Inl e \<Rightarrow> (Some e, acc)
      | Inr c \<Rightarrow> resolve_apps env cmd rest (AList.update app_name c acc))"

text \<open>The outer handler: \<open>except FileNotFoundError\<close>.\<close>

definition not_found :: "exn \<Rightarrow> exn" where
  "not_found e =
     (if e = FileNotFoundError then BriefcaseConfigError ''configuration file not found''
      else e)"

definition parse_config ::
  "'c env \<Rightarrow> 'c command \<Rightarrow> string \<Rightarrow> exn option \<times> 'c command" where
  "parse_config env cmd filename =
     (case py_open (fs env) filename of
        Inl e \<Rightarrow> (Some (not_found e), cmd)
      | Inr config_file \<Rightarrow>
          (case config_parse_config env config_file (platform cmd) (output_format cmd) of
             Inl e \<Rightarrow> (Some (not_found e), cmd)
           | Inr app_configs \<Rightarrow>
               (case resolve_apps env cmd app_configs [] of
                  (r, apps') \<Rightarrow> (map_option not_found r, cmd\<lparr>apps := Some apps'\<rparr>))))"

section \<open>\<open>main\<close>\<close>

datatype outcome = Exit int | Uncaught exn

definition is_BriefcaseError :: "exn \<Rightarrow> bool" where
  "is_BriefcaseError e =
     (case e of BriefcaseConfigError m \<Rightarrow> True | BriefcaseError c m \<Rightarrow> True | _ \<Rightarrow> False)"

definition error_code :: "'c env \<Rightarrow> exn \<Rightarrow> int" where
  "error_code env e =
     (case e of BriefcaseConfigError m \<Rightarrow> Rep_nonzero (config_error_code env)
              | BriefcaseError c m \<Rightarrow> c
              | _ \<Rightarrow> 0)"

text \<open>The body of the \<open>try\<close> in \<open>main\<close>.\<close>

definition main_try :: "'c env \<Rightarrow> string list \<Rightarrow> io \<Rightarrow> exn option \<times> io" where
  "main_try env argv io0 =
     (case parse_cmdline env argv of
        Inl e \<Rightarrow> (Some e, io0)
      | Inr command \<Rightarrow>
          (case parse_config env command ''pyproject.toml'' of
             (Some e, command') \<Rightarrow> (Some e, io0)
           | (None, command') \<Rightarrow> command_call env command' io0))"

text \<open>\<open>print(e, file=sys.stdout if e.error_code == 0 else sys.stderr)\<close>\<close>

definition print_error :: "'c env \<Rightarrow> exn \<Rightarrow> io \<Rightarrow> io" where
  "print_error env e io1 =
     (if error_code env e = 0
      then io1\<lparr>stdout := stdout io1 @ [exn_str env e]\<rparr>
      else io1\<lparr>stderr := stderr io1 @ [exn_str env e]\<rparr>)"

definition main :: "'c env \<Rightarrow> string list \<Rightarrow> io \<Rightarrow> outcome \<times> io" where
  "main env argv io0 =
     (case main_try env argv io0 of
        (None, io1) \<Rightarrow> (Exit 0, io1)
      | (Some e, io1) \<Rightarrow>
          if is_BriefcaseError e
          then (Exit (error_code env e), print_error env e io1)
          else (Uncaught e, io1))"

section \<open>The specification's reading of the merge and of the error message\<close>

text \<open>
  The three layers as the specification words them, as maps: the defaults layer holds
  the command-line value of every config-relevant option classified default-bearing,
  the explicit layer that of every config-relevant option classified not
  default-bearing, and the file configuration lies between them.
\<close>

definition spec_defaults_layer :: "'c command \<Rightarrow> string \<Rightarrow> pyval option" where
  "spec_defaults_layer cmd =
     (\<lambda>opt. if opt \<in> set (config_options cmd) \<and> opt \<in> default_options cmd
            then map_of (options cmd) opt else None)"

definition spec_explicit_layer :: "'c command \<Rightarrow> string \<Rightarrow> pyval option" where
  "spec_explicit_layer cmd =
     (\<lambda>opt. if opt \<in> set (config_options cmd) \<and> opt \<notin> default_options cmd
            then map_of (options cmd) opt else None)"

definition spec_resolve :: "'c command \<Rightarrow> pyval dict \<Rightarrow> string \<Rightarrow> pyval option" where
  "spec_resolve cmd raw = spec_defaults_layer cmd ++ map_of raw ++ spec_explicit_layer cmd"

text \<open>
  The specification's classification: a name is default-bearing when a declaration of
  that name has a truthy default.
\<close>

definition spec_default_bearing :: "action list \<Rightarrow> string \<Rightarrow> bool" where
  "spec_default_bearing actions d = list_ex (\<lambda>a. dest a = d \<and> truthy (default_val a)) actions"

text \<open>
  The specification's message: the complete list of missing field names, sorted.
\<close>

definition spec_incomplete_message :: "string \<Rightarrow> param list \<Rightarrow> pyval dict \<Rightarrow> string" where
  "spec_incomplete_message app_name ps app_config =
     incomplete_message app_name
       (sort (remdups (filter (\<lambda>name. name \<notin> set (dict_keys app_config)) (required_args ps))))"

section \<open>A sample project\<close>

text \<open>
  Modelled from the spec: the class \<open>AppConfig\<close> of \<open>briefcase/config.py\<close>, which is
  not among the source files. Construction fails with \<open>TypeError\<close> when a required
  field (a parameter without default, the receiver and the variadic parameter apart) is
  absent from the mapping; a key that is no field is accepted when the constructor has
  a variadic keyword parameter and is a \<open>TypeError\<close> otherwise. The record built keeps
  the mapping it was built from.
\<close>

definition AppConfig :: "param list \<Rightarrow> pyval dict \<Rightarrow> exn + pyval dict" where
  "AppConfig ps kwargs =
     (let fields = filter (\<lambda>p. pkind p \<noteq> Var_keyword \<and> pkind p \<noteq> Var_positional) (tl ps) in
      if ''self'' \<in> set (dict_keys kwargs) then Inl TypeError
      else if list_ex (\<lambda>p. pdefault p = None \<and> pname p \<notin> set (dict_keys kwargs)) fields
      then Inl TypeError
      else if \<not> list_ex (\<lambda>p. pkind p = Var_keyword) ps
              \<and> list_ex (\<lambda>k. k \<notin> set (map pname fields)) (dict_keys kwargs)
      then Inl TypeError
      else Inr kwargs)"

definition demo_params :: "param list" where
  "demo_params =
     [\<lparr>pname = ''self'', pdefault = None, pkind = Positional_or_keyword\<rparr>,
      \<lparr>pname = ''name'', pdefault = None, pkind = Positional_or_keyword\<rparr>,
      \<lparr>pname = ''bundle'', pdefault = None, pkind = Positional_or_keyword\<rparr>,
      \<lparr>pname = ''icon'', pdefault = Some PNone, pkind = Positional_or_keyword\<rparr>,
      \<lparr>pname = ''kwargs'', pdefault = None, pkind = Var_keyword\<rparr>]"

definition strict_params :: "param list" where
  "strict_params =
     [\<lparr>pname = ''self'', pdefault = None, pkind = Positional_or_keyword\<rparr>,
      \<lparr>pname = ''name'', pdefault = None, pkind = Positional_or_keyword\<rparr>,
      \<lparr>pname = ''bundle'', pdefault = None, pkind = Positional_or_keyword\<rparr>,
      \<lparr>pname = ''template'', pdefault = Some PNone, pkind = Positional_or_keyword\<rparr>,
      \<lparr>pname = ''version'', pdefault = Some PNone, pkind = Positional_or_keyword\<rparr>]"

definition demo_parser :: "action list" where
  "demo_parser = [\<lparr>dest = ''help'', default_val = PStr ''==SUPPRESS==''\<rparr>]"

definition demo_class :: command_class where
  "demo_class =
     \<lparr>add_options = (\<lambda>acts. acts @
          [\<lparr>dest = ''template'', default_val = PStr ''default-template''\<rparr>,
           \<lparr>dest = ''version'', default_val = PNone\<rparr>]),
      cls_config_options = [''template'', ''version'']\<rparr>"

fun demo_overrides :: "string list \<Rightarrow> pyval dict" where
  "demo_overrides (k # v # rest) = (drop 2 k, PStr v) # demo_overrides rest"
| "demo_overrides _ = []"

text \<open>
  A small stand-in for \<open>argparse\<close>: the namespace takes, for every dest, the default of
  its first declaration (a suppressed default gives no attribute), and then the values
  given on the command line as \<open>--name value\<close>.
\<close>

fun namespace_defaults :: "action list \<Rightarrow> pyval dict \<Rightarrow> pyval dict" where
  "namespace_defaults [] ns = ns"
| "namespace_defaults (a # as) ns =
     (if dest a \<in> set (dict_keys ns) \<or> default_val a = PStr ''==SUPPRESS==''
      then namespace_defaults as ns
      else namespace_defaults as (ns @ [(dest a, default_val a)]))"

definition demo_parse_args :: "action list \<Rightarrow> string list \<Rightarrow> exn + pyval dict" where
  "demo_parse_args actions extra =
     Inr (dict_update (namespace_defaults actions []) (demo_overrides extra))"

definition demo_cmd :: "(pyval dict) command" where
  "demo_cmd =
     \<lparr>platform = ''macOS'', output_format = ''app'',
      default_options = {''help'', ''template''},
      options = [(''template'', PStr ''default-template''), (''version'', PStr ''1.2'')],
      config_options = [''template'', ''version''],
      apps = None\<rparr>"

definition first_app :: "pyval dict" where
  "first_app =
     [(''name'', PStr ''First''), (''bundle'', PStr ''org.example''),
      (''template'', PStr ''file-template''), (''version'', PStr ''0.9'')]"

definition third_app :: "pyval dict" where
  "third_app = [(''name'', PStr ''Third''), (''bundle'', PStr ''org.example'')]"

definition second_app :: "pyval dict" where
  "second_app = [(''template'', PStr ''other'')]"

definition only_app :: "pyval dict" where
  "only_app =
     [(''name'', PStr ''Only''), (''bundle'', PStr ''org.example''),
      (''colour'', PStr ''blue'')]"

definition only_resolved :: "pyval dict" where
  "only_resolved =
     [(''template'', PStr ''default-template''), (''name'', PStr ''Only''),
      (''bundle'', PStr ''org.example''), (''colour'', PStr ''blue''),
      (''version'', PStr ''1.2'')]"

definition first_resolved :: "pyval dict" where
  "first_resolved =
     [(''template'', PStr ''file-template''), (''name'', PStr ''First''),
      (''bundle'', PStr ''org.example''), (''version'', PStr ''1.2'')]"

definition second_resolved :: "pyval dict" where
  "second_resolved = [(''template'', PStr ''other''), (''version'', PStr ''1.2'')]"

definition third_resolved :: "pyval dict" where
  "third_resolved =
     [(''template'', PStr ''default-template''), (''name'', PStr ''Third''),
      (''bundle'', PStr ''org.example''), (''version'', PStr ''1.2'')]"

definition demo_str :: "exn \<Rightarrow> string" where
  "demo_str e =
     (case e of
        BriefcaseConfigError m \<Rightarrow> ''Briefcase configuration error: '' @ m
      | BriefcaseError c m \<Rightarrow> m
      | _ \<Rightarrow> [])"

definition demo_env0 :: "(pyval dict) env" where
  "demo_env0 =
     \<lparr>fs = [''pyproject.toml'' \<mapsto> File ''[tool.briefcase]''],
      config_parse_config = (\<lambda>config_file pl fmt.
         Inr [(''first'', first_app), (''second'', second_app), (''third'', third_app)]),
      AppConfig_params = demo_params,
      AppConfig_init = AppConfig demo_params,
      config_error_code = Abs_nonzero 200,
      exn_str = demo_str,
      hash_slot = (\<lambda>s. if s = ''name'' then 2 else 5),
      parse_args = demo_parse_args,
      parse_cmdline = (\<lambda>argv. Inl (OtherError ''no command'')),
      command_call = (\<lambda>cmd io1. (None, io1\<lparr>stdout := stdout io1 @ [''CREATE:'']\<rparr>))\<rparr>"

definition demo_env :: "(pyval dict) env" where
  "demo_env =
     demo_env0\<lparr>parse_cmdline :=
        (\<lambda>argv. BaseCommand_init demo_env0 demo_class ''macOS'' ''app'' demo_parser argv)\<rparr>"

definition demo_env_ok :: "(pyval dict) env" where
  "demo_env_ok =
     demo_env\<lparr>config_parse_config :=
        (\<lambda>config_file pl fmt. Inr [(''first'', first_app), (''third'', third_app)])\<rparr>"

definition demo_env_strict :: "(pyval dict) env" where
  "demo_env_strict =
     demo_env\<lparr>AppConfig_params := strict_params,
              AppConfig_init := AppConfig strict_params,
              config_parse_config :=
                (\<lambda>config_file pl fmt. Inr [(''only'', only_app)])\<rparr>"


definition demo_env_info :: "(pyval dict) env" where
  "demo_env_info =
     demo_env\<lparr>parse_cmdline := (\<lambda>argv. Inl (BriefcaseError 0 ''Available formats: app, dmg''))\<rparr>"


definition demo_env_nocmd :: "(pyval dict) env" where
  "demo_env_nocmd =
     demo_env\<lparr>parse_cmdline := (\<lambda>argv. Inl (BriefcaseError (- 10) ''No command specified''))\<rparr>"

definition demo_env_body :: "(pyval dict) env" where
  "demo_env_body =
     demo_env_ok\<lparr>command_call := (\<lambda>cmd io1.
        (Some (BriefcaseError 3 ''Required tool not found''),
         io1\<lparr>stdout := stdout io1 @ [''CREATE:'']\<rparr>))\<rparr>"

definition demo_env_short :: "(pyval dict) env" where
  "demo_env_short =
     demo_env\<lparr>config_parse_config :=
        (\<lambda>config_file pl fmt. Inr [(''first'', first_app), (''second'', second_app)])\<rparr>"

text \<open>A command whose options have defaults of every kind, truthy and not.\<close>

definition flags_class :: command_class where
  "flags_class =
     \<lparr>add_options = (\<lambda>acts. acts @
          [\<lparr>dest = ''verbose'', default_val = PBool False\<rparr>,
           \<lparr>dest = ''jobs'', default_val = PInt 0\<rparr>,
           \<lparr>dest = ''tag'', default_val = PStr []\<rparr>,
           \<lparr>dest = ''extras'', default_val = PList []\<rparr>,
           \<lparr>dest = ''environ'', default_val = PDict []\<rparr>,
           \<lparr>dest = ''target'', default_val = PNone\<rparr>,
           \<lparr>dest = ''debug'', default_val = PBool True\<rparr>,
           \<lparr>dest = ''retries'', default_val = PInt 3\<rparr>,
           \<lparr>dest = ''template'', default_val = PStr ''default-template''\<rparr>,
           \<lparr>dest = ''paths'', default_val = PList [PStr ''src'']\<rparr>]),
      cls_config_options = [''template'', ''tag'']\<rparr>"

definition flags_cmd :: "(pyval dict) command" where
  "flags_cmd =
     \<lparr>platform = ''macOS'', output_format = ''app'',
      default_options = {''help'', ''debug'', ''retries'', ''template'', ''paths''},
      options =
        [(''verbose'', PBool False), (''jobs'', PInt 0), (''tag'', PStr []),
         (''extras'', PList []), (''environ'', PDict []), (''target'', PNone),
         (''debug'', PBool True), (''retries'', PInt 3),
         (''template'', PStr ''default-template''), (''paths'', PList [PStr ''src''])],
      config_options = [''template'', ''tag''],
      apps = None\<rparr>"

text \<open>
  A command with a switch and its opposite, \<open>--feature\<close> and \<open>--no-feature\<close>, two
  declarations that share the dest \<open>feature\<close>: the first stores true and has the
  default false, the second stores false and has the default true.
\<close>

definition pair_class :: command_class where
  "pair_class =
     \<lparr>add_options = (\<lambda>acts. acts @
          [\<lparr>dest = ''feature'', default_val = PBool False\<rparr>,
           \<lparr>dest = ''feature'', default_val = PBool True\<rparr>]),
      cls_config_options = [''feature'']\<rparr>"

definition pair_cmd :: "(pyval dict) command" where
  "pair_cmd =
     \<lparr>platform = ''macOS'', output_format = ''app'',
      default_options = {''help'', ''feature''},
      options = [(''feature'', PBool False)],
      config_options = [''feature''],
      apps = None\<rparr>"

definition io_empty :: io where
  "io_empty = \<lparr>stdout = [], stderr = []\<rparr>"

section \<open>Dictionaries and set iteration\<close>

lemma set_set_iter: "set (set_iter slot xs) = set xs"
  by (simp add: set_iter_def)

lemma distinct_set_iter: "distinct (set_iter slot xs)"
  by (simp add: set_iter_def)

lemma map_of_dict_update:
  "map_of (dict_update d other) = map_of d ++ map_of (rev other)"
  unfolding dict_update_def
proof (induction other arbitrary: d)
  case Nil
  show ?case by simp
next
  case (Cons kv other)
  obtain k v where kv: "kv = (k, v)" by (cases kv)
  show ?case
    by (simp add: kv Cons.IH update_conv' map_add_upd_left fun_eq_iff map_add_def split: option.splits)
qed

lemma map_of_rev_distinct:
  "distinct (map fst xs) \<Longrightarrow> map_of (rev xs) = map_of xs"
  by (rule map_of_inject_set[THEN iffD2]) (simp_all add: rev_map[symmetric])

lemma map_of_dict_update_distinct:
  "distinct (map fst other) \<Longrightarrow> map_of (dict_update d other) = map_of d ++ map_of other"
  by (simp add: map_of_dict_update map_of_rev_distinct)

lemma keys_dict_update:
  "set (dict_keys (dict_update d other)) = set (dict_keys d) \<union> set (dict_keys other)"
  unfolding dict_update_def dict_keys_def
proof (induction other arbitrary: d)
  case Nil
  show ?case by simp
next
  case (Cons kv other)
  have "fst ` set (AList.update (fst kv) (snd kv) d) = insert (fst kv) (fst ` set d)"
    by (simp add: dom_update)
  then show ?case
    using Cons.IH[of "AList.update (fst kv) (snd kv) d"]
    by (simp add: case_prod_beta)
qed

lemma distinct_dict_update:
  "distinct (map fst d) \<Longrightarrow> distinct (map fst (dict_update d other))"
  unfolding dict_update_def
  by (induction other arbitrary: d) (auto simp: distinct_update)

lemma option_values_map_of:
  "option_values ns opts acc = Inr d \<Longrightarrow>
     map_of d = (\<lambda>k. if k \<in> set opts then map_of ns k else map_of acc k)"
proof (induction opts arbitrary: acc)
  case Nil
  then show ?case by simp
next
  case (Cons opt opts)
  from Cons.prems obtain v where v: "map_of ns opt = Some v"
    and r: "option_values ns opts (AList.update opt v acc) = Inr d"
    by (auto simp: getattr_def split: option.splits)
  show ?case
    using Cons.IH[OF r] v by (auto simp: update_conv' fun_eq_iff)
qed

lemma option_values_keys:
  "option_values ns opts acc = Inr d \<Longrightarrow>
     set (dict_keys d) = set opts \<union> set (dict_keys acc)"
proof (induction opts arbitrary: acc)
  case Nil
  then show ?case by simp
next
  case (Cons opt opts)
  from Cons.prems obtain v where
    r: "option_values ns opts (AList.update opt v acc) = Inr d"
    by (auto simp: getattr_def split: option.splits)
  show ?case
    using Cons.IH[OF r] by (auto simp: dict_keys_def dom_update)
qed

lemma option_values_distinct:
  "option_values ns opts acc = Inr d \<Longrightarrow> distinct (map fst acc) \<Longrightarrow> distinct (map fst d)"
proof (induction opts arbitrary: acc)
  case Nil
  then show ?case by simp
next
  case (Cons opt opts)
  from Cons.prems obtain v where
    r: "option_values ns opts (AList.update opt v acc) = Inr d"
    by (auto simp: getattr_def split: option.splits)
  show ?case
    using Cons.IH[OF r] Cons.prems(2) by (simp add: distinct_update)
qed

lemma option_values_total:
  "set opts \<subseteq> set (dict_keys ns) \<Longrightarrow> \<exists>d. option_values ns opts acc = Inr d"
proof (induction opts arbitrary: acc)
  case Nil
  show ?case by simp
next
  case (Cons opt opts)
  from Cons.prems have "opt \<in> fst ` set ns" by (simp add: dict_keys_def)
  then obtain v where "map_of ns opt = Some v"
    by (metis domD dom_map_of_conv_image_fst)
  with Cons show ?case by (simp add: getattr_def)
qed

section \<open>The merge of the three layers\<close>

lemma resolve_app_config_total:
  assumes "set (config_options cmd) \<subseteq> set (dict_keys (options cmd))"
  shows "\<exists>cfg. resolve_app_config env cmd raw = Inr cfg"
proof -
  let ?opts = "set_iter (hash_slot env) (config_options cmd)"
  have a: "set (filter (\<lambda>option. option \<in> default_options cmd) ?opts)
             \<subseteq> set (dict_keys (options cmd))"
    using assms by (auto simp: set_set_iter)
  have b: "set (filter (\<lambda>option. option \<notin> default_options cmd) ?opts)
             \<subseteq> set (dict_keys (options cmd))"
    using assms by (auto simp: set_set_iter)
  from option_values_total[OF a, of "[]"] obtain d1 where
    d1: "option_values (options cmd) (filter (\<lambda>option. option \<in> default_options cmd) ?opts) [] = Inr d1"
    by blast
  from option_values_total[OF b, of "[]"] obtain d2 where
    d2: "option_values (options cmd) (filter (\<lambda>option. option \<notin> default_options cmd) ?opts) [] = Inr d2"
    by blast
  show ?thesis
    by (simp add: resolve_app_config_def Let_def d1 d2)
qed

lemma resolve_app_config_layers:
  assumes "resolve_app_config env cmd raw = Inr cfg"
  obtains d1 d2 where
    "option_values (options cmd)
       (filter (\<lambda>option. option \<in> default_options cmd)
          (set_iter (hash_slot env) (config_options cmd))) [] = Inr d1"
    "option_values (options cmd)
       (filter (\<lambda>option. option \<notin> default_options cmd)
          (set_iter (hash_slot env) (config_options cmd))) [] = Inr d2"
    "cfg = dict_update (dict_update d1 raw) d2"
  using assms
  by (auto simp: resolve_app_config_def Let_def split: sum.splits)

lemma resolve_app_config_map_of:
  assumes r: "resolve_app_config env cmd raw = Inr cfg"
    and dr: "distinct (map fst raw)"
  shows "map_of cfg = spec_resolve cmd raw"
proof -
  from r obtain d1 d2 where
    d1: "option_values (options cmd)
       (filter (\<lambda>option. option \<in> default_options cmd)
          (set_iter (hash_slot env) (config_options cmd))) [] = Inr d1"
    and d2: "option_values (options cmd)
       (filter (\<lambda>option. option \<notin> default_options cmd)
          (set_iter (hash_slot env) (config_options cmd))) [] = Inr d2"
    and cfg: "cfg = dict_update (dict_update d1 raw) d2"
    by (rule resolve_app_config_layers)
  have m1: "map_of d1 = spec_defaults_layer cmd"
    using option_values_map_of[OF d1]
    by (auto simp: spec_defaults_layer_def set_set_iter fun_eq_iff)
  have m2: "map_of d2 = spec_explicit_layer cmd"
    using option_values_map_of[OF d2]
    by (auto simp: spec_explicit_layer_def set_set_iter fun_eq_iff)
  have dd2: "distinct (map fst d2)"
    using option_values_distinct[OF d2] by simp
  show ?thesis
    by (simp add: cfg map_of_dict_update_distinct dr dd2 m1 m2 spec_resolve_def)
qed

lemma resolve_app_config_keys:
  assumes r: "resolve_app_config env cmd raw = Inr cfg"
  shows "set (dict_keys cfg) = set (config_options cmd) \<union> set (dict_keys raw)"
proof -
  from r obtain d1 d2 where
    d1: "option_values (options cmd)
       (filter (\<lambda>option. option \<in> default_options cmd)
          (set_iter (hash_slot env) (config_options cmd))) [] = Inr d1"
    and d2: "option_values (options cmd)
       (filter (\<lambda>option. option \<notin> default_options cmd)
          (set_iter (hash_slot env) (config_options cmd))) [] = Inr d2"
    and cfg: "cfg = dict_update (dict_update d1 raw) d2"
    by (rule resolve_app_config_layers)
  have k1: "set (dict_keys d1) = {x \<in> set (config_options cmd). x \<in> default_options cmd}"
    using option_values_keys[OF d1] by (simp add: set_set_iter dict_keys_def)
  have k2: "set (dict_keys d2) = {x \<in> set (config_options cmd). x \<notin> default_options cmd}"
    using option_values_keys[OF d2] by (simp add: set_set_iter dict_keys_def)
  show ?thesis
    unfolding cfg keys_dict_update k1 k2 by blast
qed

lemma resolve_app_config_distinct:
  assumes r: "resolve_app_config env cmd raw = Inr cfg"
  shows "distinct (dict_keys cfg)"
proof -
  from r obtain d1 d2 where
    d1: "option_values (options cmd)
       (filter (\<lambda>option. option \<in> default_options cmd)
          (set_iter (hash_slot env) (config_options cmd))) [] = Inr d1"
    and cfg: "cfg = dict_update (dict_update d1 raw) d2"
    by (rule resolve_app_config_layers)
  have "distinct (map fst d1)"
    using option_values_distinct[OF d1] by simp
  then show ?thesis
    by (simp add: cfg dict_keys_def distinct_dict_update)
qed

lemma option_values_needs:
  "option_values ns opts acc = Inr d \<Longrightarrow> set opts \<subseteq> set (dict_keys ns)"
proof (induction opts arbitrary: acc)
  case Nil
  show ?case by simp
next
  case (Cons opt opts)
  from Cons.prems obtain v where v: "map_of ns opt = Some v"
    and r: "option_values ns opts (AList.update opt v acc) = Inr d"
    by (auto simp: getattr_def split: option.splits)
  from v have "opt \<in> fst ` set ns"
    by (metis domI dom_map_of_conv_image_fst)
  with Cons.IH[OF r] show ?case by (simp add: dict_keys_def)
qed

lemma resolve_app_config_needs_options:
  assumes r: "resolve_app_config env cmd raw = Inr cfg"
  shows "set (config_options cmd) \<subseteq> set (dict_keys (options cmd))"
proof -
  from r obtain d1 d2 where
    d1: "option_values (options cmd)
       (filter (\<lambda>option. option \<in> default_options cmd)
          (set_iter (hash_slot env) (config_options cmd))) [] = Inr d1"
    and d2: "option_values (options cmd)
       (filter (\<lambda>option. option \<notin> default_options cmd)
          (set_iter (hash_slot env) (config_options cmd))) [] = Inr d2"
    by (rule resolve_app_config_layers)
  show ?thesis
    using option_values_needs[OF d1] option_values_needs[OF d2]
    by (auto simp: set_set_iter)
qed

section \<open>The loop over the applications\<close>

lemma update_fresh:
  "k \<notin> fst ` set al \<Longrightarrow> AList.update k v al = al @ [(k, v)]"
  by (induction al) auto

lemma fold_update_fresh:
  "distinct (map fst kvs) \<Longrightarrow> fst ` set kvs \<inter> fst ` set acc = {} \<Longrightarrow>
     fold (\<lambda>(n, c). AList.update n c) kvs acc = acc @ kvs"
proof (induction kvs arbitrary: acc)
  case Nil
  show ?case by simp
next
  case (Cons kv kvs)
  obtain k v where kv: "kv = (k, v)" by (cases kv)
  from Cons.prems have fresh: "k \<notin> fst ` set acc" by (auto simp: kv)
  have "fst ` set kvs \<inter> fst ` set (acc @ [(k, v)]) = {}"
    using Cons.prems by (auto simp: kv)
  with Cons.IH[of "acc @ [(k, v)]"] Cons.prems(1)
  show ?case by (simp add: kv update_fresh[OF fresh])
qed

lemma build_app_Inr:
  "build_app env cmd n raw = Inr c \<longleftrightarrow>
     (\<exists>cfg. resolve_app_config env cmd raw = Inr cfg \<and> AppConfig_init env cfg = Inr c)"
  by (auto simp: build_app_def split: sum.splits)

lemma build_app_TypeError:
  "resolve_app_config env cmd raw = Inr cfg \<Longrightarrow> AppConfig_init env cfg = Inl TypeError \<Longrightarrow>
     build_app env cmd n raw =
       Inl (BriefcaseConfigError (incomplete_message n (missing_args env cfg)))"
  by (simp add: build_app_def)

lemma resolve_apps_prefix:
  "list_all2 (\<lambda>(n, raw) c. build_app env cmd n raw = Inr c) pre cs \<Longrightarrow>
     resolve_apps env cmd (pre @ rest) acc =
       resolve_apps env cmd rest
         (fold (\<lambda>(n, c). AList.update n c) (zip (dict_keys pre) cs) acc)"
proof (induction pre cs arbitrary: acc rule: list_all2_induct)
  case Nil
  show ?case by (simp add: dict_keys_def)
next
  case (Cons x xs c cs)
  obtain n raw where x: "x = (n, raw)" by (cases x)
  from Cons.hyps(1) have b: "build_app env cmd n raw = Inr c" by (simp add: x)
  show ?case
    by (simp add: x b Cons.IH dict_keys_def)
qed

lemma resolve_apps_prefix_distinct:
  assumes ok: "list_all2 (\<lambda>(n, raw) c. build_app env cmd n raw = Inr c) pre cs"
    and d: "distinct (dict_keys pre)"
  shows "resolve_apps env cmd (pre @ rest) [] =
           resolve_apps env cmd rest (zip (dict_keys pre) cs)"
proof -
  have len: "length pre = length cs" using ok by (rule list_all2_lengthD)
  have "map fst (zip (dict_keys pre) cs) = dict_keys pre"
    using len by (simp add: dict_keys_def)
  with d have "distinct (map fst (zip (dict_keys pre) cs))" by simp
  then have "fold (\<lambda>(n, c). AList.update n c) (zip (dict_keys pre) cs) [] = zip (dict_keys pre) cs"
    using fold_update_fresh[of "zip (dict_keys pre) cs" "[]"] by simp
  with resolve_apps_prefix[OF ok, of rest "[]"] show ?thesis by simp
qed

lemma resolve_apps_returns:
  "resolve_apps env cmd items acc = (None, acc') \<Longrightarrow>
     \<forall>(n, raw)\<in>set items. \<exists>c. build_app env cmd n raw = Inr c"
proof (induction items arbitrary: acc)
  case Nil
  show ?case by simp
next
  case (Cons x xs)
  obtain n raw where x: "x = (n, raw)" by (cases x)
  from Cons.prems obtain c where c: "build_app env cmd n raw = Inr c"
    and r: "resolve_apps env cmd xs (AList.update n c acc) = (None, acc')"
    by (auto simp: x split: sum.splits)
  from Cons.IH[OF r] c show ?case by (auto simp: x)
qed

lemma build_all:
  "\<forall>(n, raw)\<in>set items. \<exists>c. build_app env cmd n raw = Inr c \<Longrightarrow>
     \<exists>cs. list_all2 (\<lambda>(m, r) c. build_app env cmd m r = Inr c) items cs"
proof (induction items)
  case Nil
  show ?case by simp
next
  case (Cons x xs)
  obtain n raw where x: "x = (n, raw)" by (cases x)
  from Cons.prems obtain c where c: "build_app env cmd n raw = Inr c"
    by (auto simp: x)
  from Cons obtain cs where "list_all2 (\<lambda>(m, r) c. build_app env cmd m r = Inr c) xs cs"
    by auto
  with c have "list_all2 (\<lambda>(m, r) c. build_app env cmd m r = Inr c) (x # xs) (c # cs)"
    by (simp add: x)
  then show ?case by blast
qed

lemma parse_config_abort:
  assumes f: "py_open (fs env) fn = Inr content"
    and p: "config_parse_config env content (platform cmd) (output_format cmd)
              = Inr (pre @ (n, raw) # post)"
    and ok: "list_all2 (\<lambda>(m, r) c. build_app env cmd m r = Inr c) pre cs"
    and d: "distinct (dict_keys pre)"
    and fail: "build_app env cmd n raw = Inl e"
  shows "parse_config env cmd fn =
           (Some (not_found e), cmd\<lparr>apps := Some (zip (dict_keys pre) cs)\<rparr>)"
  by (simp add: parse_config_def f p resolve_apps_prefix_distinct[OF ok d] fail)

lemma parse_config_all:
  assumes f: "py_open (fs env) fn = Inr content"
    and p: "config_parse_config env content (platform cmd) (output_format cmd) = Inr items"
    and ok: "list_all2 (\<lambda>(m, r) c. build_app env cmd m r = Inr c) items cs"
    and d: "distinct (dict_keys items)"
  shows "parse_config env cmd fn = (None, cmd\<lparr>apps := Some (zip (dict_keys items) cs)\<rparr>)"
  using resolve_apps_prefix_distinct[OF ok d, of "[]"]
  by (simp add: parse_config_def f p)

lemma resolve_app_config_command_call:
  "resolve_app_config (env\<lparr>command_call := body\<rparr>) cmd raw = resolve_app_config env cmd raw"
  by (simp add: resolve_app_config_def)

lemma missing_args_command_call:
  "missing_args (env\<lparr>command_call := body\<rparr>) cfg = missing_args env cfg"
  by (simp add: missing_args_def)

lemma build_app_command_call:
  "build_app (env\<lparr>command_call := body\<rparr>) cmd n raw = build_app env cmd n raw"
  by (simp add: build_app_def resolve_app_config_command_call missing_args_command_call
           cong: if_cong split: sum.splits)

lemma missing_args_set:
  "set (missing_args env cfg) =
     {pname p |p. p \<in> set (AppConfig_params env) \<and> pdefault p = None
        \<and> pname p \<notin> {''self'', ''kwargs''} \<and> pname p \<notin> set (dict_keys cfg)}"
  by (auto simp: missing_args_def required_args_def set_set_iter)

lemma missing_args_distinct: "distinct (missing_args env cfg)"
  by (simp add: missing_args_def distinct_set_iter)

lemma missing_args_empty:
  "set (required_args (AppConfig_params env)) \<subseteq> set (dict_keys cfg) \<Longrightarrow>
     missing_args env cfg = []"
  by (simp add: missing_args_def set_iter_def filter_empty_conv subset_iff)

section \<open>Failure, exit and classification\<close>

lemma parse_config_default_options:
  "default_options (snd (parse_config env cmd fn)) = default_options cmd"
  by (simp add: parse_config_def split: option.splits sum.splits prod.splits)

lemma resolve_explicit_value:
  assumes r: "resolve_app_config env cmd raw = Inr cfg"
    and raw: "distinct (dict_keys raw)"
    and d: "d \<in> set (config_options cmd)" "d \<notin> default_options cmd"
  shows "map_of cfg d = map_of (options cmd) d"
proof -
  from resolve_app_config_needs_options[OF r] d(1)
  have "d \<in> fst ` set (options cmd)" by (auto simp: dict_keys_def)
  then have "map_of (options cmd) d \<noteq> None" by (simp add: map_of_eq_None_iff)
  with resolve_app_config_map_of[OF r] raw d show ?thesis
    by (auto simp: dict_keys_def spec_resolve_def map_add_def spec_explicit_layer_def)
qed

lemma build_app_parser:
  "build_app (env\<lparr>config_parse_config := g\<rparr>) cmd n raw = build_app env cmd n raw"
  by (simp add: build_app_def resolve_app_config_def missing_args_def
           cong: if_cong split: sum.splits)

lemma error_code_update:
  "error_code (env\<lparr>config_parse_config := g, command_call := body\<rparr>) e = error_code env e"
  by (simp add: error_code_def split: exn.splits)

lemma print_error_update:
  "print_error (env\<lparr>config_parse_config := g, command_call := body\<rparr>) e io1
     = print_error env e io1"
  by (simp add: print_error_def error_code_update)

lemma main_after_failure:
  assumes "parse_cmdline env argv = Inr cmd"
    and "parse_config env cmd ''pyproject.toml'' = (Some e, cmd')"
  shows "main env argv io0 =
           (if is_BriefcaseError e then (Exit (error_code env e), print_error env e io0)
            else (Uncaught e, io0))"
  using assms by (simp add: main_def main_try_def)

lemma truthy_iff:
  "truthy v \<longleftrightarrow> v \<notin> {PNone, PBool False, PInt 0, PStr [], PList [], PDict []}"
  by (cases v) auto

lemma resolve_apps_command_call:
  "resolve_apps (env\<lparr>command_call := body\<rparr>) cmd items acc = resolve_apps env cmd items acc"
  by (induction items arbitrary: acc) (auto simp: build_app_command_call split: sum.splits)

lemma parse_config_command_call:
  "parse_config (env\<lparr>command_call := body\<rparr>) cmd fn = parse_config env cmd fn"
  by (simp add: parse_config_def resolve_apps_command_call split: option.splits sum.splits)

section \<open>The sample project, evaluated\<close>

lemma demo_init:
  "BaseCommand_init demo_env0 demo_class ''macOS'' ''app'' demo_parser [''--version'', ''1.2'']
     = Inr demo_cmd"
proof -
  have "extract_default_options (add_options demo_class demo_parser) = {''help'', ''template''}"
    by (auto simp: extract_default_options_def demo_class_def demo_parser_def)
  then show ?thesis
    by (simp add: BaseCommand_init_def demo_env0_def demo_parse_args_def dict_update_def
          demo_cmd_def)
       (simp add: demo_class_def demo_parser_def dict_keys_def)
qed

lemma flags_init:
  "BaseCommand_init demo_env0 flags_class ''macOS'' ''app'' demo_parser [] = Inr flags_cmd"
proof -
  have "extract_default_options (add_options flags_class demo_parser)
          = {''help'', ''debug'', ''retries'', ''template'', ''paths''}"
    by (auto simp: extract_default_options_def flags_class_def demo_parser_def)
  then show ?thesis
    by (simp add: BaseCommand_init_def demo_env0_def demo_parse_args_def dict_update_def
          flags_cmd_def)
       (simp add: flags_class_def demo_parser_def dict_keys_def)
qed

lemma pair_init:
  "BaseCommand_init demo_env0 pair_class ''macOS'' ''app'' demo_parser [] = Inr pair_cmd"
proof -
  have "extract_default_options (add_options pair_class demo_parser) = {''help'', ''feature''}"
    by (auto simp: extract_default_options_def pair_class_def demo_parser_def)
  then show ?thesis
    by (simp add: BaseCommand_init_def demo_env0_def demo_parse_args_def dict_update_def
          pair_cmd_def)
       (simp add: pair_class_def demo_parser_def dict_keys_def)
qed

lemma pair_resolve:
  "resolve_app_config demo_env pair_cmd [(''feature'', PBool True)]
     = Inr [(''feature'', PBool True)]"
  by (simp add: resolve_app_config_def demo_env_def demo_env0_def pair_cmd_def
        set_iter_def getattr_def dict_update_def)

lemma demo_files: "py_open (fs demo_env) ''pyproject.toml'' = Inr ''[tool.briefcase]''"
  by (simp add: py_open_def demo_env_def demo_env0_def)

lemma demo_parse:
  "config_parse_config demo_env content (platform demo_cmd) (output_format demo_cmd)
     = Inr ([(''first'', first_app)] @ (''second'', second_app) # [(''third'', third_app)])"
  by (simp add: demo_env_def demo_env0_def)

lemma demo_resolve_first:
  "resolve_app_config demo_env demo_cmd first_app = Inr first_resolved"
  by (simp add: resolve_app_config_def demo_env_def demo_env0_def demo_cmd_def first_app_def
        first_resolved_def set_iter_def getattr_def dict_update_def)

lemma demo_resolve_second:
  "resolve_app_config demo_env demo_cmd second_app = Inr second_resolved"
  by (simp add: resolve_app_config_def demo_env_def demo_env0_def demo_cmd_def second_app_def
        second_resolved_def set_iter_def getattr_def dict_update_def)

lemma demo_resolve_third:
  "resolve_app_config demo_env demo_cmd third_app = Inr third_resolved"
  by (simp add: resolve_app_config_def demo_env_def demo_env0_def demo_cmd_def third_app_def
        third_resolved_def set_iter_def getattr_def dict_update_def)

lemma demo_init_first: "AppConfig_init demo_env first_resolved = Inr first_resolved"
  by (simp add: demo_env_def demo_env0_def AppConfig_def demo_params_def first_resolved_def
        dict_keys_def)

lemma demo_init_second: "AppConfig_init demo_env second_resolved = Inl TypeError"
  by (simp add: demo_env_def demo_env0_def AppConfig_def demo_params_def second_resolved_def
        dict_keys_def)

lemma demo_init_third: "AppConfig_init demo_env third_resolved = Inr third_resolved"
  by (simp add: demo_env_def demo_env0_def AppConfig_def demo_params_def third_resolved_def
        dict_keys_def)

lemma demo_build_first: "build_app demo_env demo_cmd ''first'' first_app = Inr first_resolved"
  by (simp add: build_app_def demo_resolve_first demo_init_first)

lemma demo_build_third: "build_app demo_env demo_cmd ''third'' third_app = Inr third_resolved"
  by (simp add: build_app_def demo_resolve_third demo_init_third)

lemma demo_missing_second: "missing_args demo_env second_resolved = [''name'', ''bundle'']"
  by (simp add: missing_args_def required_args_def demo_env_def demo_env0_def demo_params_def
        second_resolved_def dict_keys_def set_iter_def)

lemma demo_message_second:
  "incomplete_message ''second'' [''name'', ''bundle'']
     = ''Configuration for 'second' is incomplete (missing 'name', 'bundle')''"
  by (simp add: incomplete_message_def quoted_def)

lemma demo_cmdline: "parse_cmdline demo_env [''--version'', ''1.2''] = Inr demo_cmd"
  by (simp add: demo_env_def demo_init)

lemma demo_ok_first:
  "list_all2 (\<lambda>(m, r) c. build_app demo_env demo_cmd m r = Inr c)
     [(''first'', first_app)] [first_resolved]"
  by (simp add: demo_build_first)

lemma demo_distinct:
  "distinct (dict_keys ([(''first'', first_app)] @ (''second'', second_app) # [(''third'', third_app)]))"
  by (simp add: dict_keys_def)

lemma demo_build_second:
  "build_app demo_env demo_cmd ''second'' second_app
     = Inl (BriefcaseConfigError
              ''Configuration for 'second' is incomplete (missing 'name', 'bundle')'')"
  by (simp add: build_app_TypeError[OF demo_resolve_second demo_init_second]
        demo_missing_second demo_message_second)

lemma demo_parse_config:
  "parse_config demo_env demo_cmd ''pyproject.toml''
       = (Some (BriefcaseConfigError
                  ''Configuration for 'second' is incomplete (missing 'name', 'bundle')''),
          demo_cmd\<lparr>apps := Some [(''first'', first_resolved)]\<rparr>)"
  by (simp add: parse_config_abort[OF demo_files demo_parse demo_ok_first _ demo_build_second]
        dict_keys_def not_found_def)

lemma demo_code: "Rep_nonzero (config_error_code demo_env) = 200"
  by (simp add: demo_env_def demo_env0_def Abs_nonzero_inverse)

lemma strict_files: "py_open (fs demo_env_strict) ''pyproject.toml'' = Inr ''[tool.briefcase]''"
  by (simp add: py_open_def demo_env_strict_def demo_env_def demo_env0_def)

lemma strict_parse:
  "config_parse_config demo_env_strict content (platform demo_cmd) (output_format demo_cmd)
     = Inr ([] @ (''only'', only_app) # [])"
  by (simp add: demo_env_strict_def)

lemma strict_resolve:
  "resolve_app_config demo_env_strict demo_cmd only_app = Inr only_resolved"
  by (simp add: resolve_app_config_def demo_env_strict_def demo_env_def demo_env0_def
        demo_cmd_def only_app_def only_resolved_def set_iter_def getattr_def dict_update_def)

lemma strict_init: "AppConfig_init demo_env_strict only_resolved = Inl TypeError"
  by (simp add: demo_env_strict_def AppConfig_def strict_params_def only_resolved_def
        dict_keys_def)

lemma strict_required:
  "set (required_args (AppConfig_params demo_env_strict)) \<subseteq> set (dict_keys only_resolved)"
  by (simp add: demo_env_strict_def required_args_def strict_params_def only_resolved_def
        dict_keys_def)

lemma demo_ok_cmdline: "parse_cmdline demo_env_ok [''--version'', ''1.2''] = Inr demo_cmd"
  by (simp add: demo_env_ok_def demo_env_def demo_init)

lemma demo_ok_files: "py_open (fs demo_env_ok) ''pyproject.toml'' = Inr ''[tool.briefcase]''"
  by (simp add: py_open_def demo_env_ok_def demo_env_def demo_env0_def)

lemma demo_ok_parse:
  "config_parse_config demo_env_ok content (platform demo_cmd) (output_format demo_cmd)
     = Inr [(''first'', first_app), (''third'', third_app)]"
  by (simp add: demo_env_ok_def)

lemma demo_ok_build:
  "build_app demo_env_ok cmd n raw = build_app demo_env cmd n raw"
  by (simp add: demo_env_ok_def build_app_parser)

lemma demo_ok_parse_config:
  "parse_config demo_env_ok demo_cmd ''pyproject.toml''
     = (None, demo_cmd\<lparr>apps := Some [(''first'', first_resolved), (''third'', third_resolved)]\<rparr>)"
proof -
  have ok: "list_all2 (\<lambda>(m, r) c. build_app demo_env_ok demo_cmd m r = Inr c)
              [(''first'', first_app), (''third'', third_app)] [first_resolved, third_resolved]"
    by (simp add: demo_ok_build demo_build_first demo_build_third)
  have d: "distinct (dict_keys [(''first'', first_app), (''third'', third_app)])"
    by (simp add: dict_keys_def)
  show ?thesis
    by (simp add: parse_config_all[OF demo_ok_files demo_ok_parse ok d] dict_keys_def)
qed

lemma demo_ok_resolve_first:
  "resolve_app_config demo_env_ok demo_cmd first_app = Inr first_resolved"
  by (simp add: resolve_app_config_def demo_env_ok_def demo_env_def demo_env0_def demo_cmd_def
        first_app_def first_resolved_def set_iter_def getattr_def dict_update_def)

lemma demo_ok_resolve_third:
  "resolve_app_config demo_env_ok demo_cmd third_app = Inr third_resolved"
  by (simp add: resolve_app_config_def demo_env_ok_def demo_env_def demo_env0_def demo_cmd_def
        third_app_def third_resolved_def set_iter_def getattr_def dict_update_def)

lemma demo_ok_init_first: "AppConfig_init demo_env_ok first_resolved = Inr first_resolved"
  by (simp add: demo_env_ok_def demo_env_def demo_env0_def AppConfig_def demo_params_def
        first_resolved_def dict_keys_def)

lemma demo_ok_init_third: "AppConfig_init demo_env_ok third_resolved = Inr third_resolved"
  by (simp add: demo_env_ok_def demo_env_def demo_env0_def AppConfig_def demo_params_def
        third_resolved_def dict_keys_def)

section \<open>The claims\<close>

text \<open>
  C1. When every config-relevant option is an attribute of the parsed options and the
  file configuration is a dict, the merge returns a mapping that is the overlay, in this
  order, of the defaults layer (the command-line value of every config-relevant option
  classified default-bearing), the file configuration, and the explicit layer (the
  command-line value of every config-relevant option classified not default-bearing).
  So a default-bearing option that the file sets takes the file's value, one that the
  file does not set keeps its command-line value, and an option that is not
  default-bearing takes its command-line value whatever the file says.
\<close>

theorem resolve_three_layers:
  assumes opts: "set (config_options cmd) \<subseteq> set (dict_keys (options cmd))"
    and raw: "distinct (dict_keys raw)"
  shows "\<exists>cfg. resolve_app_config env cmd raw = Inr cfg
           \<and> map_of cfg = spec_defaults_layer cmd ++ map_of raw ++ spec_explicit_layer cmd
           \<and> (\<forall>opt v. opt \<in> set (config_options cmd) \<and> opt \<in> default_options cmd
                  \<and> map_of raw opt = Some v \<longrightarrow> map_of cfg opt = Some v)
           \<and> (\<forall>opt. opt \<in> set (config_options cmd) \<and> opt \<in> default_options cmd
                  \<and> map_of raw opt = None \<longrightarrow> map_of cfg opt = map_of (options cmd) opt)
           \<and> (\<forall>opt. opt \<in> set (config_options cmd) \<and> opt \<notin> default_options cmd
                  \<longrightarrow> map_of cfg opt = map_of (options cmd) opt \<and> map_of cfg opt \<noteq> None)"
proof -
  from resolve_app_config_total[OF opts] obtain cfg where
    r: "resolve_app_config env cmd raw = Inr cfg" by blast
  have m: "map_of cfg = spec_resolve cmd raw"
    using resolve_app_config_map_of[OF r] raw by (simp add: dict_keys_def)
  have some: "map_of (options cmd) opt \<noteq> None" if "opt \<in> set (config_options cmd)" for opt
  proof -
    from that opts have "opt \<in> fst ` set (options cmd)" by (auto simp: dict_keys_def)
    then show ?thesis by (simp add: map_of_eq_None_iff)
  qed
  have a: "map_of cfg = spec_defaults_layer cmd ++ map_of raw ++ spec_explicit_layer cmd"
    by (simp add: m spec_resolve_def)
  have b: "map_of cfg opt = Some v"
    if "opt \<in> set (config_options cmd) \<and> opt \<in> default_options cmd \<and> map_of raw opt = Some v"
    for opt v
    using that by (simp add: a map_add_def spec_explicit_layer_def)
  have c: "map_of cfg opt = map_of (options cmd) opt"
    if "opt \<in> set (config_options cmd) \<and> opt \<in> default_options cmd \<and> map_of raw opt = None"
    for opt
    using that by (simp add: a map_add_def spec_explicit_layer_def spec_defaults_layer_def)
  have d: "map_of cfg opt = map_of (options cmd) opt \<and> map_of cfg opt \<noteq> None"
    if "opt \<in> set (config_options cmd) \<and> opt \<notin> default_options cmd" for opt
    using that some[of opt]
    by (auto simp: a map_add_def spec_explicit_layer_def split: option.splits)
  from r a b c d show ?thesis by blast
qed

theorem resolve_three_layers_witness:
  "set (config_options demo_cmd) \<subseteq> set (dict_keys (options demo_cmd))
   \<and> distinct (dict_keys first_app)
   \<and> (\<exists>cfg. resolve_app_config demo_env demo_cmd first_app = Inr cfg
         \<and> map_of cfg ''template'' = Some (PStr ''file-template'')
         \<and> map_of cfg ''version'' = Some (PStr ''1.2''))"
proof -
  have h1: "set (config_options demo_cmd) \<subseteq> set (dict_keys (options demo_cmd))"
    by (simp add: demo_cmd_def dict_keys_def)
  have h2: "distinct (dict_keys first_app)"
    by (simp add: first_app_def dict_keys_def)
  from resolve_three_layers[OF h1 h2, of demo_env] obtain cfg where
    r: "resolve_app_config demo_env demo_cmd first_app = Inr cfg"
    and f: "\<forall>opt v. opt \<in> set (config_options demo_cmd) \<and> opt \<in> default_options demo_cmd
                  \<and> map_of first_app opt = Some v \<longrightarrow> map_of cfg opt = Some v"
    and e: "\<forall>opt. opt \<in> set (config_options demo_cmd) \<and> opt \<notin> default_options demo_cmd
                  \<longrightarrow> map_of cfg opt = map_of (options demo_cmd) opt \<and> map_of cfg opt \<noteq> None"
    by blast
  have t: "map_of cfg ''template'' = Some (PStr ''file-template'')"
    using f[rule_format, of "''template''" "PStr ''file-template''"]
    by (simp add: demo_cmd_def first_app_def)
  have v: "map_of cfg ''version'' = Some (PStr ''1.2'')"
    using e[rule_format, of "''version''"]
    by (simp add: demo_cmd_def)
  from h1 h2 r t v show ?thesis by blast
qed

text \<open>
  C2, as the code has it. The set of default-bearing names that \<open>__init__\<close> stores is
  computed from the declared actions alone: a name is in it exactly when at least one
  declaration with that dest has a default other than \<open>None\<close>, \<open>False\<close>, \<open>0\<close>, the
  empty string, the empty list and the empty dict; so a name all of whose declarations
  have such a default is not in it. The set does not depend on the command line that is
  parsed afterwards, \<open>parse_config\<close> does not change it, and a config-relevant option
  that is not in it takes its command-line value in every resolved configuration.
  The third theorem below has two declarations that share a dest, the first with the
  default false and the second with the default true: the name is default-bearing
  although it is declared with a false default, and the file's value replaces its
  command-line value.
\<close>

theorem default_bearing_classification:
  assumes i: "BaseCommand_init env cls pl fmt parser extra = Inr cmd"
  shows "default_options cmd = extract_default_options (add_options cls parser)
       \<and> (\<forall>d. d \<in> default_options cmd \<longleftrightarrow>
              (\<exists>a\<in>set (add_options cls parser). dest a = d
                 \<and> default_val a \<notin> {PNone, PBool False, PInt 0, PStr [], PList [], PDict []}))
       \<and> (\<forall>d. (\<forall>a\<in>set (add_options cls parser). dest a = d
                 \<longrightarrow> default_val a \<in> {PNone, PBool False, PInt 0, PStr [], PList [], PDict []})
              \<longrightarrow> d \<notin> default_options cmd)
       \<and> (\<forall>extra' cmd'. BaseCommand_init env cls pl fmt parser extra' = Inr cmd'
              \<longrightarrow> default_options cmd' = default_options cmd)
       \<and> (\<forall>fn. default_options (snd (parse_config env cmd fn)) = default_options cmd)
       \<and> (\<forall>d raw cfg. d \<in> set (config_options cmd) \<and> d \<notin> default_options cmd
              \<and> distinct (dict_keys raw) \<and> resolve_app_config env cmd raw = Inr cfg
              \<longrightarrow> map_of cfg d = map_of (options cmd) d)"
proof -
  have a: "default_options cmd = extract_default_options (add_options cls parser)"
    using i by (auto simp: BaseCommand_init_def Let_def split: sum.splits)
  have b: "d \<in> default_options cmd \<longleftrightarrow>
             (\<exists>a\<in>set (add_options cls parser). dest a = d
                 \<and> default_val a \<notin> {PNone, PBool False, PInt 0, PStr [], PList [], PDict []})"
    for d
    unfolding truthy_iff[symmetric] by (auto simp: a extract_default_options_def)
  have c: "default_options cmd' = default_options cmd"
    if "BaseCommand_init env cls pl fmt parser extra' = Inr cmd'" for extra' cmd'
    using that by (auto simp: a BaseCommand_init_def Let_def split: sum.splits)
  have e: "map_of cfg d = map_of (options cmd) d"
    if "d \<in> set (config_options cmd) \<and> d \<notin> default_options cmd
          \<and> distinct (dict_keys raw) \<and> resolve_app_config env cmd raw = Inr cfg" for d raw cfg
    using that resolve_explicit_value[of env cmd raw cfg d] by blast
  from a b c e parse_config_default_options[of env cmd] show ?thesis by blast
qed

theorem default_bearing_classification_witness:
  "BaseCommand_init demo_env0 flags_class ''macOS'' ''app'' demo_parser [] = Inr flags_cmd
   \<and> ''debug'' \<in> default_options flags_cmd
   \<and> ''retries'' \<in> default_options flags_cmd
   \<and> ''template'' \<in> default_options flags_cmd
   \<and> ''paths'' \<in> default_options flags_cmd
   \<and> ''verbose'' \<notin> default_options flags_cmd
   \<and> ''jobs'' \<notin> default_options flags_cmd
   \<and> ''tag'' \<notin> default_options flags_cmd
   \<and> ''extras'' \<notin> default_options flags_cmd
   \<and> ''environ'' \<notin> default_options flags_cmd
   \<and> ''target'' \<notin> default_options flags_cmd"
proof -
  note c = default_bearing_classification[OF flags_init]
  note iff = c[THEN conjunct2, THEN conjunct1, rule_format]
  have t1: "''debug'' \<in> default_options flags_cmd"
    unfolding iff by (simp add: flags_class_def demo_parser_def)
  have t2: "''retries'' \<in> default_options flags_cmd"
    unfolding iff by (simp add: flags_class_def demo_parser_def)
  have t3: "''template'' \<in> default_options flags_cmd"
    unfolding iff by (simp add: flags_class_def demo_parser_def)
  have t4: "''paths'' \<in> default_options flags_cmd"
    unfolding iff by (simp add: flags_class_def demo_parser_def)
  have f1: "''verbose'' \<notin> default_options flags_cmd"
    unfolding iff by (simp add: flags_class_def demo_parser_def)
  have f2: "''jobs'' \<notin> default_options flags_cmd"
    unfolding iff by (simp add: flags_class_def demo_parser_def)
  have f3: "''tag'' \<notin> default_options flags_cmd"
    unfolding iff by (simp add: flags_class_def demo_parser_def)
  have f4: "''extras'' \<notin> default_options flags_cmd"
    unfolding iff by (simp add: flags_class_def demo_parser_def)
  have f5: "''environ'' \<notin> default_options flags_cmd"
    unfolding iff by (simp add: flags_class_def demo_parser_def)
  have f6: "''target'' \<notin> default_options flags_cmd"
    unfolding iff by (simp add: flags_class_def demo_parser_def)
  from flags_init t1 t2 t3 t4 f1 f2 f3 f4 f5 f6 show ?thesis by blast
qed

theorem shared_dest_counterexample:
  "BaseCommand_init demo_env0 pair_class ''macOS'' ''app'' demo_parser [] = Inr pair_cmd
   \<and> \<lparr>dest = ''feature'', default_val = PBool False\<rparr> \<in> set (add_options pair_class demo_parser)
   \<and> map_of (options pair_cmd) ''feature'' = Some (PBool False)
   \<and> ''feature'' \<in> default_options pair_cmd
   \<and> ''feature'' \<in> set (config_options pair_cmd)
   \<and> resolve_app_config demo_env pair_cmd [(''feature'', PBool True)]
       = Inr [(''feature'', PBool True)]"
  using pair_init pair_resolve
  by (simp add: pair_class_def demo_parser_def pair_cmd_def)

text \<open>
  C3, as the code has it. When the construction of \<open>AppConfig\<close> fails for an
  application (the call raises \<open>TypeError\<close>, as a call without a required argument
  does), \<open>parse_config\<close> raises one configuration error whose message names the
  application and lists, each once, every required field that is absent from the merged
  mapping: every parameter of the constructor that has no default, the receiver and the
  variadic parameters apart. This is stated for a constructor whose receiver is named
  \<open>self\<close> and whose variadic parameter, if it has one, is the one named \<open>kwargs\<close>.
  The names come in the iteration order of a set; the third theorem below shows a run
  where that order is not the sorted one.
\<close>

theorem incomplete_error_lists_all_missing:
  assumes f: "py_open (fs env) fn = Inr content"
    and p: "config_parse_config env content (platform cmd) (output_format cmd)
              = Inr (pre @ (n, raw) # post)"
    and ok: "list_all2 (\<lambda>(m, r) c. build_app env cmd m r = Inr c) pre cs"
    and d: "distinct (dict_keys (pre @ (n, raw) # post))"
    and r: "resolve_app_config env cmd raw = Inr cfg"
    and t: "AppConfig_init env cfg = Inl TypeError"
    and sig: "AppConfig_params env = receiver # others"
    and self: "pname receiver = ''self''"
    and conv: "\<forall>q\<in>set others. pname q \<noteq> ''self''
                 \<and> (pkind q \<in> {Var_positional, Var_keyword} \<longleftrightarrow> pname q = ''kwargs'')"
  shows "\<exists>ms. fst (parse_config env cmd fn)
                = Some (BriefcaseConfigError
                          (''Configuration for '' @ quoted n @ '' is incomplete (missing ''
                             @ join '', '' (map quoted ms) @ '')''))
            \<and> distinct ms
            \<and> set ms = {pname q |q. q \<in> set others \<and> pdefault q = None
                            \<and> pkind q \<notin> {Var_positional, Var_keyword}
                            \<and> pname q \<notin> set (dict_keys cfg)}"
proof -
  from d have dp: "distinct (dict_keys pre)" by (simp add: dict_keys_def)
  note fail = build_app_TypeError[OF r t, of n]
  have a: "fst (parse_config env cmd fn)
           = Some (BriefcaseConfigError
                     (''Configuration for '' @ quoted n @ '' is incomplete (missing ''
                        @ join '', '' (map quoted (missing_args env cfg)) @ '')''))"
    by (simp add: parse_config_abort[OF f p ok dp fail] not_found_def incomplete_message_def)
  have s: "set (missing_args env cfg)
             = {pname q |q. q \<in> set others \<and> pdefault q = None
                            \<and> pkind q \<notin> {Var_positional, Var_keyword}
                            \<and> pname q \<notin> set (dict_keys cfg)}"
    unfolding missing_args_set sig using self conv by auto
  from a missing_args_distinct[of env cfg] s show ?thesis by blast
qed

theorem incomplete_error_lists_all_missing_witness:
  "resolve_app_config demo_env demo_cmd second_app = Inr second_resolved
   \<and> AppConfig_init demo_env second_resolved = Inl TypeError
   \<and> AppConfig_params demo_env = hd demo_params # tl demo_params
   \<and> (\<exists>ms. fst (parse_config demo_env demo_cmd ''pyproject.toml'')
                = Some (BriefcaseConfigError
                          (''Configuration for '' @ quoted ''second''
                             @ '' is incomplete (missing '' @ join '', '' (map quoted ms) @ '')''))
            \<and> distinct ms \<and> set ms = {''name'', ''bundle''})"
proof -
  have sig: "AppConfig_params demo_env = hd demo_params # tl demo_params"
    by (simp add: demo_env_def demo_env0_def demo_params_def)
  have self: "pname (hd demo_params) = ''self''"
    by (simp add: demo_params_def)
  have conv: "\<forall>q\<in>set (tl demo_params). pname q \<noteq> ''self''
                 \<and> (pkind q \<in> {Var_positional, Var_keyword} \<longleftrightarrow> pname q = ''kwargs'')"
    by (simp add: demo_params_def)
  from incomplete_error_lists_all_missing[OF demo_files demo_parse demo_ok_first demo_distinct
             demo_resolve_second demo_init_second sig self conv]
  obtain ms where
    a: "fst (parse_config demo_env demo_cmd ''pyproject.toml'')
                = Some (BriefcaseConfigError
                          (''Configuration for '' @ quoted ''second''
                             @ '' is incomplete (missing '' @ join '', '' (map quoted ms) @ '')''))"
    and b: "distinct ms"
    and c: "set ms = {pname q |q. q \<in> set (tl demo_params) \<and> pdefault q = None
                            \<and> pkind q \<notin> {Var_positional, Var_keyword}
                            \<and> pname q \<notin> set (dict_keys second_resolved)}"
    by blast
  have "{pname q |q. q \<in> set (tl demo_params) \<and> pdefault q = None
                            \<and> pkind q \<notin> {Var_positional, Var_keyword}
                            \<and> pname q \<notin> set (dict_keys second_resolved)} = {''name'', ''bundle''}"
  proof -
    have "{pname q |q. q \<in> set (tl demo_params) \<and> pdefault q = None
                            \<and> pkind q \<notin> {Var_positional, Var_keyword}
                            \<and> pname q \<notin> set (dict_keys second_resolved)}
          = set (map pname (filter (\<lambda>q. pdefault q = None
                            \<and> pkind q \<notin> {Var_positional, Var_keyword}
                            \<and> pname q \<notin> set (dict_keys second_resolved)) (tl demo_params)))"
      by auto
    also have "\<dots> = {''name'', ''bundle''}"
      by (simp add: demo_params_def second_resolved_def dict_keys_def)
    finally show ?thesis .
  qed
  with c have c': "set ms = {''name'', ''bundle''}" by simp
  from demo_resolve_second demo_init_second sig a b c' show ?thesis by blast
qed

theorem sorted_missing_counterexample:
  "fst (parse_config demo_env demo_cmd ''pyproject.toml'')
     = Some (BriefcaseConfigError
               ''Configuration for 'second' is incomplete (missing 'name', 'bundle')'')
   \<and> \<not> sorted [''name'', ''bundle'']
   \<and> spec_incomplete_message ''second'' (AppConfig_params demo_env) second_resolved
       = ''Configuration for 'second' is incomplete (missing 'bundle', 'name')''
   \<and> fst (parse_config demo_env demo_cmd ''pyproject.toml'')
       \<noteq> Some (BriefcaseConfigError
                 (spec_incomplete_message ''second'' (AppConfig_params demo_env) second_resolved))"
proof -
  have a: "fst (parse_config demo_env demo_cmd ''pyproject.toml'')
     = Some (BriefcaseConfigError
               ''Configuration for 'second' is incomplete (missing 'name', 'bundle')'')"
    by (simp add: parse_config_abort[OF demo_files demo_parse demo_ok_first _ demo_build_second]
          dict_keys_def not_found_def)
  have b: "\<not> sorted [''name'', ''bundle'']"
    by simp
  have c: "spec_incomplete_message ''second'' (AppConfig_params demo_env) second_resolved
       = ''Configuration for 'second' is incomplete (missing 'bundle', 'name')''"
    by (simp add: spec_incomplete_message_def incomplete_message_def quoted_def
          required_args_def demo_env_def demo_env0_def demo_params_def second_resolved_def
          dict_keys_def)
  from a b c show ?thesis by simp
qed

text \<open>
  C4. The resolved configuration has no key beyond the config-relevant option names and
  the keys of the application's file configuration, and a key of the file configuration
  that is no config-relevant option is in the result with the file's value.
\<close>

theorem resolved_keys:
  assumes opts: "set (config_options cmd) \<subseteq> set (dict_keys (options cmd))"
    and raw: "distinct (dict_keys raw)"
  shows "\<exists>cfg. resolve_app_config env cmd raw = Inr cfg
           \<and> set (dict_keys cfg) \<subseteq> set (config_options cmd) \<union> set (dict_keys raw)
           \<and> (\<forall>k\<in>set (dict_keys raw). k \<notin> set (config_options cmd) \<longrightarrow>
                 k \<in> set (dict_keys cfg) \<and> map_of cfg k = map_of raw k)"
proof -
  from resolve_app_config_total[OF opts] obtain cfg where
    r: "resolve_app_config env cmd raw = Inr cfg" by blast
  have m: "map_of cfg = spec_resolve cmd raw"
    using resolve_app_config_map_of[OF r] raw by (simp add: dict_keys_def)
  have k: "set (dict_keys cfg) = set (config_options cmd) \<union> set (dict_keys raw)"
    by (rule resolve_app_config_keys[OF r])
  have p: "k \<in> set (dict_keys cfg) \<and> map_of cfg k = map_of raw k"
    if "k \<in> set (dict_keys raw)" "k \<notin> set (config_options cmd)" for k
  proof -
    from that(1) have "map_of raw k \<noteq> None"
      by (simp add: dict_keys_def map_of_eq_None_iff)
    with that show ?thesis
      by (auto simp: k m spec_resolve_def map_add_def spec_explicit_layer_def)
  qed
  from r k p show ?thesis by blast
qed

theorem resolved_keys_witness:
  "set (config_options demo_cmd) \<subseteq> set (dict_keys (options demo_cmd))
   \<and> distinct (dict_keys first_app)
   \<and> (\<exists>cfg. resolve_app_config demo_env demo_cmd first_app = Inr cfg
         \<and> set (dict_keys cfg) \<subseteq> {''template'', ''version'', ''name'', ''bundle''}
         \<and> map_of cfg ''name'' = Some (PStr ''First''))"
proof -
  have h1: "set (config_options demo_cmd) \<subseteq> set (dict_keys (options demo_cmd))"
    by (simp add: demo_cmd_def dict_keys_def)
  have h2: "distinct (dict_keys first_app)"
    by (simp add: first_app_def dict_keys_def)
  from resolved_keys[OF h1 h2, of demo_env] obtain cfg where
    r: "resolve_app_config demo_env demo_cmd first_app = Inr cfg"
    and s: "set (dict_keys cfg) \<subseteq> set (config_options demo_cmd) \<union> set (dict_keys first_app)"
    and p: "\<forall>k\<in>set (dict_keys first_app). k \<notin> set (config_options demo_cmd) \<longrightarrow>
                 k \<in> set (dict_keys cfg) \<and> map_of cfg k = map_of first_app k"
    by blast
  have s': "set (dict_keys cfg) \<subseteq> {''template'', ''version'', ''name'', ''bundle''}"
    using s by (auto simp: demo_cmd_def first_app_def dict_keys_def)
  have n: "map_of cfg ''name'' = Some (PStr ''First'')"
    using p[rule_format, of "''name''"]
    by (simp add: demo_cmd_def first_app_def dict_keys_def)
  from h1 h2 r s' n show ?thesis by blast
qed




text \<open>
  C6. When the applications before one application are all built and that application
  fails, \<open>parse_config\<close> raises that application's error at once, and \<open>main\<close>
  reports it (or lets it escape when it is no \<open>BriefcaseError\<close>). The outcome is the
  same whatever applications follow the failing one in the parser's output and
  whatever the body of the command is: no later application is resolved or validated,
  and the body does not run.
\<close>

theorem first_failure_aborts:
  assumes c: "parse_cmdline env argv = Inr cmd"
    and f: "py_open (fs env) ''pyproject.toml'' = Inr content"
    and p: "config_parse_config env content (platform cmd) (output_format cmd)
              = Inr (pre @ (n, raw) # post)"
    and ok: "list_all2 (\<lambda>(m, r) c. build_app env cmd m r = Inr c) pre cs"
    and d: "distinct (dict_keys (pre @ (n, raw) # post))"
    and fail: "build_app env cmd n raw = Inl e"
  shows "parse_config env cmd ''pyproject.toml''
           = (Some (not_found e), cmd\<lparr>apps := Some (zip (dict_keys pre) cs)\<rparr>)
       \<and> main env argv io0 =
           (if is_BriefcaseError (not_found e)
            then (Exit (error_code env (not_found e)), print_error env (not_found e) io0)
            else (Uncaught (not_found e), io0))
       \<and> (\<forall>post' body.
             main (env\<lparr>config_parse_config := (\<lambda>config_file pl fmt. Inr (pre @ (n, raw) # post')),
                       command_call := body\<rparr>) argv io0
               = main env argv io0)"
proof -
  from d have dp: "distinct (dict_keys pre)" by (simp add: dict_keys_def)
  have a: "parse_config env cmd ''pyproject.toml''
           = (Some (not_found e), cmd\<lparr>apps := Some (zip (dict_keys pre) cs)\<rparr>)"
    by (rule parse_config_abort[OF f p ok dp fail])
  note b = main_after_failure[OF c a]
  have "main (env\<lparr>config_parse_config := (\<lambda>config_file pl fmt. Inr (pre @ (n, raw) # post')),
                       command_call := body\<rparr>) argv io0 = main env argv io0" for post' body
  proof -
    let ?g = "\<lambda>config_file pl fmt. Inr (pre @ (n, raw) # post') :: exn + (pyval dict) dict"
    let ?env = "env\<lparr>config_parse_config := ?g, command_call := body\<rparr>"
    have be: "build_app ?env cmd m r = build_app env cmd m r" for m r
      by (simp add: build_app_command_call build_app_parser)
    have c2: "parse_cmdline ?env argv = Inr cmd" using c by simp
    have f2: "py_open (fs ?env) ''pyproject.toml'' = Inr content" using f by simp
    have p2: "config_parse_config ?env content (platform cmd) (output_format cmd)
                = Inr (pre @ (n, raw) # post')" by simp
    have ok2: "list_all2 (\<lambda>(m, r) c. build_app ?env cmd m r = Inr c) pre cs"
      using ok by (simp add: be)
    have fail2: "build_app ?env cmd n raw = Inl e" using fail by (simp add: be)
    have a2: "parse_config ?env cmd ''pyproject.toml''
           = (Some (not_found e), cmd\<lparr>apps := Some (zip (dict_keys pre) cs)\<rparr>)"
      by (rule parse_config_abort[OF f2 p2 ok2 dp fail2])
    show ?thesis
      unfolding main_after_failure[OF c2 a2] b error_code_update print_error_update ..
  qed
  with a b show ?thesis by blast
qed

theorem first_failure_aborts_witness:
  "parse_cmdline demo_env [''--version'', ''1.2''] = Inr demo_cmd
   \<and> build_app demo_env demo_cmd ''second'' second_app
       = Inl (BriefcaseConfigError
                ''Configuration for 'second' is incomplete (missing 'name', 'bundle')'')
   \<and> parse_config demo_env demo_cmd ''pyproject.toml''
       = (Some (BriefcaseConfigError
                  ''Configuration for 'second' is incomplete (missing 'name', 'bundle')''),
          demo_cmd\<lparr>apps := Some [(''first'', first_resolved)]\<rparr>)
   \<and> main demo_env [''--version'', ''1.2''] io_empty
       = (Exit 200,
          \<lparr>stdout = [],
           stderr = [''Briefcase configuration error: Configuration for 'second' is incomplete (missing 'name', 'bundle')'']\<rparr>)"
proof -
  note w = first_failure_aborts[OF demo_cmdline demo_files demo_parse demo_ok_first
             demo_distinct demo_build_second, of io_empty]
  have m: "main demo_env [''--version'', ''1.2''] io_empty
       = (Exit 200,
          \<lparr>stdout = [],
           stderr = [''Briefcase configuration error: Configuration for 'second' is incomplete (missing 'name', 'bundle')'']\<rparr>)"
    using w[THEN conjunct2, THEN conjunct1]
    by (simp add: not_found_def is_BriefcaseError_def error_code_def print_error_def
          io_empty_def demo_code)
       (simp add: demo_env_def demo_env0_def demo_str_def)
  have p: "parse_config demo_env demo_cmd ''pyproject.toml''
       = (Some (BriefcaseConfigError
                  ''Configuration for 'second' is incomplete (missing 'name', 'bundle')''),
          demo_cmd\<lparr>apps := Some [(''first'', first_resolved)]\<rparr>)"
    using w[THEN conjunct1] by (simp add: not_found_def dict_keys_def)
  from demo_cmdline demo_build_second p m show ?thesis by blast
qed

text \<open>
  C7. A run in which the command line is parsed, the configuration is resolved and the
  body returns exits with 0. When an exception is raised by the parsing of the command
  line, by \<open>parse_config\<close> or by the body: a configuration error is printed to the
  error stream and the exit code is its error code, which is not zero; a
  \<open>BriefcaseError\<close> whose code is 0 is printed to the standard output and the exit code
  is 0; a \<open>BriefcaseError\<close> with another code is printed to the error stream and the
  exit code is that code. What the body printed before it raised stays printed.
\<close>

theorem exit_codes:
  "(parse_cmdline env argv = Inr cmd \<and> parse_config env cmd ''pyproject.toml'' = (None, cmd')
      \<and> command_call env cmd' io0 = (None, io1)
      \<longrightarrow> main env argv io0 = (Exit 0, io1))
   \<and> ((parse_cmdline env argv = Inl e \<and> io1 = io0)
        \<or> (parse_cmdline env argv = Inr cmd
             \<and> parse_config env cmd ''pyproject.toml'' = (Some e, cmd') \<and> io1 = io0)
        \<or> (parse_cmdline env argv = Inr cmd
             \<and> parse_config env cmd ''pyproject.toml'' = (None, cmd')
             \<and> command_call env cmd' io0 = (Some e, io1))
      \<longrightarrow> (e = BriefcaseConfigError m \<longrightarrow>
             Rep_nonzero (config_error_code env) \<noteq> 0
             \<and> main env argv io0
                 = (Exit (Rep_nonzero (config_error_code env)),
                    io1\<lparr>stderr := stderr io1 @ [exn_str env e]\<rparr>))
        \<and> (e = BriefcaseError 0 m \<longrightarrow>
             main env argv io0 = (Exit 0, io1\<lparr>stdout := stdout io1 @ [exn_str env e]\<rparr>))
        \<and> (e = BriefcaseError c m \<and> c \<noteq> 0 \<longrightarrow>
             main env argv io0 = (Exit c, io1\<lparr>stderr := stderr io1 @ [exn_str env e]\<rparr>)))"
proof -
  have nz: "Rep_nonzero (config_error_code env) \<noteq> 0"
    using Rep_nonzero[of "config_error_code env"] by simp
  show ?thesis
    using nz
    by (auto simp: main_def main_try_def print_error_def is_BriefcaseError_def error_code_def)
qed

theorem exit_codes_witness:
  "main demo_env_ok [''--version'', ''1.2''] io_empty
     = (Exit 0, \<lparr>stdout = [''CREATE:''], stderr = []\<rparr>)
   \<and> main demo_env [''--version'', ''1.2''] io_empty
     = (Exit 200,
        \<lparr>stdout = [],
         stderr = [''Briefcase configuration error: Configuration for 'second' is incomplete (missing 'name', 'bundle')'']\<rparr>)
   \<and> main demo_env_info [''--help''] io_empty
     = (Exit 0, \<lparr>stdout = [''Available formats: app, dmg''], stderr = []\<rparr>)
   \<and> main demo_env_nocmd [] io_empty
     = (Exit (- 10), \<lparr>stdout = [], stderr = [''No command specified'']\<rparr>)
   \<and> main demo_env_body [''--version'', ''1.2''] io_empty
     = (Exit 3, \<lparr>stdout = [''CREATE:''], stderr = [''Required tool not found'']\<rparr>)"
proof -
  let ?built = "demo_cmd\<lparr>apps := Some [(''first'', first_resolved), (''third'', third_resolved)]\<rparr>"
  have call: "command_call demo_env_ok ?built io_empty
                = (None, \<lparr>stdout = [''CREATE:''], stderr = []\<rparr>)"
    by (simp add: demo_env_ok_def demo_env_def demo_env0_def io_empty_def)
  have a: "main demo_env_ok [''--version'', ''1.2''] io_empty
     = (Exit 0, \<lparr>stdout = [''CREATE:''], stderr = []\<rparr>)"
    using exit_codes[where env = demo_env_ok and argv = "[''--version'', ''1.2'']"
            and cmd = demo_cmd and cmd' = ?built
            and ?io0.0 = io_empty and ?io1.0 = "\<lparr>stdout = [''CREATE:''], stderr = []\<rparr>"]
      demo_ok_cmdline demo_ok_parse_config call
    by blast
  have str: "exn_str demo_env = demo_str"
    by (simp add: demo_env_def demo_env0_def)
  have b: "main demo_env [''--version'', ''1.2''] io_empty
     = (Exit 200,
        \<lparr>stdout = [],
         stderr = [''Briefcase configuration error: Configuration for 'second' is incomplete (missing 'name', 'bundle')'']\<rparr>)"
    using exit_codes[where env = demo_env and argv = "[''--version'', ''1.2'']"
            and cmd = demo_cmd
            and cmd' = "demo_cmd\<lparr>apps := Some [(''first'', first_resolved)]\<rparr>"
            and ?io0.0 = io_empty and ?io1.0 = io_empty
            and e = "BriefcaseConfigError
                       ''Configuration for 'second' is incomplete (missing 'name', 'bundle')''"
            and m = "''Configuration for 'second' is incomplete (missing 'name', 'bundle')''"]
      demo_cmdline demo_parse_config
    by (simp add: demo_code str demo_str_def io_empty_def)
  have c: "main demo_env_info [''--help''] io_empty
     = (Exit 0, \<lparr>stdout = [''Available formats: app, dmg''], stderr = []\<rparr>)"
    using exit_codes[where env = demo_env_info and argv = "[''--help'']"
            and ?io0.0 = io_empty and ?io1.0 = io_empty
            and e = "BriefcaseError 0 ''Available formats: app, dmg''"
            and m = "''Available formats: app, dmg''"]
    by (simp add: demo_env_info_def str demo_str_def io_empty_def)
  have d: "main demo_env_nocmd [] io_empty
     = (Exit (- 10), \<lparr>stdout = [], stderr = [''No command specified'']\<rparr>)"
    using exit_codes[where env = demo_env_nocmd and argv = "[]"
            and ?io0.0 = io_empty and ?io1.0 = io_empty
            and e = "BriefcaseError (- 10) ''No command specified''"
            and c = "- 10" and m = "''No command specified''"]
    by (simp add: demo_env_nocmd_def str demo_str_def io_empty_def)
  have cmdl: "parse_cmdline demo_env_body [''--version'', ''1.2''] = Inr demo_cmd"
    by (simp add: demo_env_body_def demo_ok_cmdline)
  have pc: "parse_config demo_env_body demo_cmd ''pyproject.toml'' = (None, ?built)"
    by (simp add: demo_env_body_def parse_config_command_call demo_ok_parse_config)
  have body: "command_call demo_env_body ?built io_empty
                = (Some (BriefcaseError 3 ''Required tool not found''),
                   \<lparr>stdout = [''CREATE:''], stderr = []\<rparr>)"
    by (simp add: demo_env_body_def io_empty_def)
  have e: "main demo_env_body [''--version'', ''1.2''] io_empty
     = (Exit 3, \<lparr>stdout = [''CREATE:''], stderr = [''Required tool not found'']\<rparr>)"
    using exit_codes[where env = demo_env_body and argv = "[''--version'', ''1.2'']"
            and cmd = demo_cmd and cmd' = ?built
            and ?io0.0 = io_empty and ?io1.0 = "\<lparr>stdout = [''CREATE:''], stderr = []\<rparr>"
            and e = "BriefcaseError 3 ''Required tool not found''"
            and c = 3 and m = "''Required tool not found''"]
      cmdl pc body
    by (simp add: demo_env_body_def demo_env_ok_def str demo_str_def)
  from a b c d e show ?thesis by blast
qed

text \<open>
  C8, as the code has it. When the configuration file opens and the parser returns a dict
  of applications, \<open>parse_config\<close> returns normally exactly when every application of
  the parser's output resolves and constructs; and then \<open>apps\<close> has the parser's
  application names, each once and in the parser's order, each with the \<open>AppConfig\<close>
  built from the resolved configuration of that application. So no application is left
  out without an exception, and none appears twice. The third theorem below is a run
  in which the second of three applications fails: the third would resolve and
  construct, but the run is the same as if the parser had not returned it.
\<close>

theorem one_config_per_app:
  assumes f: "py_open (fs env) fn = Inr content"
    and p: "config_parse_config env content (platform cmd) (output_format cmd) = Inr items"
    and d: "distinct (dict_keys items)"
  shows "(fst (parse_config env cmd fn) = None \<longleftrightarrow>
            (\<forall>(n, raw)\<in>set items.
               \<exists>cfg c. resolve_app_config env cmd raw = Inr cfg \<and> AppConfig_init env cfg = Inr c))
       \<and> (fst (parse_config env cmd fn) = None \<longrightarrow>
            (\<exists>aps. parse_config env cmd fn = (None, cmd\<lparr>apps := Some aps\<rparr>)
               \<and> dict_keys aps = dict_keys items
               \<and> list_all2 (\<lambda>(n, raw) (m, c). m = n
                     \<and> (\<exists>cfg. resolve_app_config env cmd raw = Inr cfg
                              \<and> AppConfig_init env cfg = Inr c)) items aps))"
proof -
  let ?all = "\<forall>(n, raw)\<in>set items. \<exists>c. build_app env cmd n raw = Inr c"
  have fwd: "?all" if "fst (parse_config env cmd fn) = None"
  proof -
    obtain r acc' where ra: "resolve_apps env cmd items [] = (r, acc')"
      by (cases "resolve_apps env cmd items []")
    with that have "r = None" by (simp add: parse_config_def f p)
    with ra show ?thesis using resolve_apps_returns by blast
  qed
  have bwd: "\<exists>aps. parse_config env cmd fn = (None, cmd\<lparr>apps := Some aps\<rparr>)
               \<and> dict_keys aps = dict_keys items
               \<and> list_all2 (\<lambda>(n, raw) (m, c). m = n
                     \<and> (\<exists>cfg. resolve_app_config env cmd raw = Inr cfg
                              \<and> AppConfig_init env cfg = Inr c)) items aps" if all: "?all"
  proof -
    from build_all[OF all] obtain cs where
      cs: "list_all2 (\<lambda>(m, r) c. build_app env cmd m r = Inr c) items cs" by blast
    have len: "length items = length cs" using cs by (rule list_all2_lengthD)
    let ?aps = "zip (dict_keys items) cs"
    have a: "parse_config env cmd fn = (None, cmd\<lparr>apps := Some ?aps\<rparr>)"
      by (rule parse_config_all[OF f p cs d])
    have b: "dict_keys ?aps = dict_keys items"
      using len by (simp add: dict_keys_def)
    have c: "list_all2 (\<lambda>(n, raw) (m, c). m = n
                 \<and> (\<exists>cfg. resolve_app_config env cmd raw = Inr cfg
                          \<and> AppConfig_init env cfg = Inr c)) items ?aps"
      using cs
      by (induction items cs rule: list_all2_induct)
         (auto simp: dict_keys_def build_app_Inr)
    from a b c show ?thesis by blast
  qed
  have eq: "?all \<longleftrightarrow> (\<forall>(n, raw)\<in>set items.
               \<exists>cfg c. resolve_app_config env cmd raw = Inr cfg \<and> AppConfig_init env cfg = Inr c)"
    by (auto simp: build_app_Inr)
  have ret: "fst (parse_config env cmd fn) = None" if "?all"
    using bwd[OF that] by auto
  from fwd bwd ret show ?thesis unfolding eq[symmetric] by blast
qed

theorem one_config_per_app_witness:
  "py_open (fs demo_env_ok) ''pyproject.toml'' = Inr ''[tool.briefcase]''
   \<and> distinct (dict_keys [(''first'', first_app), (''third'', third_app)])
   \<and> fst (parse_config demo_env_ok demo_cmd ''pyproject.toml'') = None
   \<and> (\<exists>aps. parse_config demo_env_ok demo_cmd ''pyproject.toml''
                = (None, demo_cmd\<lparr>apps := Some aps\<rparr>)
           \<and> dict_keys aps = [''first'', ''third''])"
proof -
  have d: "distinct (dict_keys [(''first'', first_app), (''third'', third_app)])"
    by (simp add: dict_keys_def)
  have ok: "\<forall>(n, raw)\<in>set [(''first'', first_app), (''third'', third_app)].
               \<exists>cfg c. resolve_app_config demo_env_ok demo_cmd raw = Inr cfg
                     \<and> AppConfig_init demo_env_ok cfg = Inr c"
    by (simp add: demo_ok_resolve_first demo_ok_resolve_third
          demo_ok_init_first demo_ok_init_third)
  note w = one_config_per_app[OF demo_ok_files demo_ok_parse d]
  from w ok have n: "fst (parse_config demo_env_ok demo_cmd ''pyproject.toml'') = None"
    by blast
  with w obtain aps where
    a: "parse_config demo_env_ok demo_cmd ''pyproject.toml'' = (None, demo_cmd\<lparr>apps := Some aps\<rparr>)"
    and k: "dict_keys aps = dict_keys [(''first'', first_app), (''third'', third_app)]"
    by blast
  from k have k': "dict_keys aps = [''first'', ''third'']" by (simp add: dict_keys_def)
  from demo_ok_files d n a k' show ?thesis by blast
qed

theorem one_config_per_app_counterexample:
  "config_parse_config demo_env ''[tool.briefcase]'' (platform demo_cmd) (output_format demo_cmd)
     = Inr [(''first'', first_app), (''second'', second_app), (''third'', third_app)]
   \<and> resolve_app_config demo_env demo_cmd third_app = Inr third_resolved
   \<and> AppConfig_init demo_env third_resolved = Inr third_resolved
   \<and> parse_config demo_env demo_cmd ''pyproject.toml''
       = (Some (BriefcaseConfigError
                  ''Configuration for 'second' is incomplete (missing 'name', 'bundle')''),
          demo_cmd\<lparr>apps := Some [(''first'', first_resolved)]\<rparr>)
   \<and> config_parse_config demo_env_short ''[tool.briefcase]'' (platform demo_cmd)
         (output_format demo_cmd)
       = Inr [(''first'', first_app), (''second'', second_app)]
   \<and> parse_config demo_env_short demo_cmd ''pyproject.toml''
       = parse_config demo_env demo_cmd ''pyproject.toml''"
proof -
  have f: "py_open (fs demo_env_short) ''pyproject.toml'' = Inr ''[tool.briefcase]''"
    by (simp add: py_open_def demo_env_short_def demo_env_def demo_env0_def)
  have p: "config_parse_config demo_env_short ''[tool.briefcase]'' (platform demo_cmd)
             (output_format demo_cmd)
           = Inr ([(''first'', first_app)] @ (''second'', second_app) # [])"
    by (simp add: demo_env_short_def)
  have ok: "list_all2 (\<lambda>(m, r) c. build_app demo_env_short demo_cmd m r = Inr c)
              [(''first'', first_app)] [first_resolved]"
    by (simp add: demo_env_short_def build_app_parser demo_build_first)
  have fail: "build_app demo_env_short demo_cmd ''second'' second_app
     = Inl (BriefcaseConfigError
              ''Configuration for 'second' is incomplete (missing 'name', 'bundle')'')"
    by (simp add: demo_env_short_def build_app_parser demo_build_second)
  have s: "parse_config demo_env_short demo_cmd ''pyproject.toml''
       = (Some (BriefcaseConfigError
                  ''Configuration for 'second' is incomplete (missing 'name', 'bundle')''),
          demo_cmd\<lparr>apps := Some [(''first'', first_resolved)]\<rparr>)"
    by (simp add: parse_config_abort[OF f p ok _ fail] dict_keys_def not_found_def)
  from demo_parse[of "''[tool.briefcase]''"] p demo_resolve_third demo_init_third
    demo_parse_config s
  show ?thesis by simp
qed

text \<open>
  C9. When the applications before one application are all built and the construction
  of \<open>AppConfig\<close> raises for that application, \<open>parse_config\<close> raises and the
  command is left with \<open>apps\<close> holding exactly the records of the applications
  before it, one for each.
\<close>

theorem apps_left_partial:
  assumes f: "py_open (fs env) fn = Inr content"
    and p: "config_parse_config env content (platform cmd) (output_format cmd)
              = Inr (pre @ (n, raw) # post)"
    and ok: "list_all2 (\<lambda>(m, r) c. build_app env cmd m r = Inr c) pre cs"
    and d: "distinct (dict_keys (pre @ (n, raw) # post))"
    and r: "resolve_app_config env cmd raw = Inr cfg"
    and t: "AppConfig_init env cfg = Inl e"
  shows "fst (parse_config env cmd fn)
           = Some (if e = TypeError
                   then BriefcaseConfigError (incomplete_message n (missing_args env cfg))
                   else not_found e)
       \<and> snd (parse_config env cmd fn) = cmd\<lparr>apps := Some (zip (dict_keys pre) cs)\<rparr>
       \<and> length (zip (dict_keys pre) cs) = length pre"
proof -
  from d have dp: "distinct (dict_keys pre)" by (simp add: dict_keys_def)
  from r t have fail: "build_app env cmd n raw
      = Inl (if e = TypeError
             then BriefcaseConfigError (incomplete_message n (missing_args env cfg))
             else e)"
    by (simp add: build_app_def)
  have len: "length pre = length cs" using ok by (rule list_all2_lengthD)
  show ?thesis
    by (simp add: parse_config_abort[OF f p ok dp fail] len dict_keys_def not_found_def)
qed

theorem apps_left_partial_witness:
  "resolve_app_config demo_env demo_cmd second_app = Inr second_resolved
   \<and> AppConfig_init demo_env second_resolved = Inl TypeError
   \<and> fst (parse_config demo_env demo_cmd ''pyproject.toml'') \<noteq> None
   \<and> apps (snd (parse_config demo_env demo_cmd ''pyproject.toml''))
       = Some [(''first'', first_resolved)]"
proof -
  note w = apps_left_partial[OF demo_files demo_parse demo_ok_first demo_distinct
             demo_resolve_second demo_init_second]
  have a: "apps (snd (parse_config demo_env demo_cmd ''pyproject.toml''))
       = Some [(''first'', first_resolved)]"
    using w[THEN conjunct2, THEN conjunct1] by (simp add: dict_keys_def)
  have b: "fst (parse_config demo_env demo_cmd ''pyproject.toml'') \<noteq> None"
    using w[THEN conjunct1] by simp
  from demo_resolve_second demo_init_second a b show ?thesis by blast
qed

text \<open>
  C10. Whenever the construction of \<open>AppConfig\<close> raises \<open>TypeError\<close>,
  \<open>parse_config\<close> raises the configuration error that reports the application's
  configuration as incomplete; when every required field is a key of the merged
  mapping, the list of missing fields in the message is empty.
\<close>

theorem type_error_reported_incomplete:
  assumes f: "py_open (fs env) fn = Inr content"
    and p: "config_parse_config env content (platform cmd) (output_format cmd)
              = Inr (pre @ (n, raw) # post)"
    and ok: "list_all2 (\<lambda>(m, r) c. build_app env cmd m r = Inr c) pre cs"
    and d: "distinct (dict_keys (pre @ (n, raw) # post))"
    and r: "resolve_app_config env cmd raw = Inr cfg"
    and t: "AppConfig_init env cfg = Inl TypeError"
  shows "fst (parse_config env cmd fn)
           = Some (BriefcaseConfigError (incomplete_message n (missing_args env cfg)))
       \<and> (set (required_args (AppConfig_params env)) \<subseteq> set (dict_keys cfg) \<longrightarrow>
            fst (parse_config env cmd fn)
              = Some (BriefcaseConfigError
                        (''Configuration for '' @ quoted n @ '' is incomplete (missing )'')))"
proof -
  from d have dp: "distinct (dict_keys pre)" by (simp add: dict_keys_def)
  note fail = build_app_TypeError[OF r t, of n]
  have a: "fst (parse_config env cmd fn)
           = Some (BriefcaseConfigError (incomplete_message n (missing_args env cfg)))"
    by (simp add: parse_config_abort[OF f p ok dp fail] not_found_def)
  have b: "incomplete_message n (missing_args env cfg)
             = ''Configuration for '' @ quoted n @ '' is incomplete (missing )''"
    if "set (required_args (AppConfig_params env)) \<subseteq> set (dict_keys cfg)"
    by (simp add: missing_args_empty[OF that] incomplete_message_def)
  from a b show ?thesis by simp
qed

theorem type_error_reported_incomplete_witness:
  "resolve_app_config demo_env_strict demo_cmd only_app = Inr only_resolved
   \<and> AppConfig_init demo_env_strict only_resolved = Inl TypeError
   \<and> set (required_args (AppConfig_params demo_env_strict)) \<subseteq> set (dict_keys only_resolved)
   \<and> fst (parse_config demo_env_strict demo_cmd ''pyproject.toml'')
       = Some (BriefcaseConfigError ''Configuration for 'only' is incomplete (missing )'')"
proof -
  have ok: "list_all2 (\<lambda>(m, r) c. build_app demo_env_strict demo_cmd m r = Inr c) [] []"
    by simp
  have d: "distinct (dict_keys ([] @ (''only'', only_app) # []))"
    by (simp add: dict_keys_def)
  note w = type_error_reported_incomplete[OF strict_files strict_parse ok d
             strict_resolve strict_init]
  have m: "fst (parse_config demo_env_strict demo_cmd ''pyproject.toml'')
       = Some (BriefcaseConfigError ''Configuration for 'only' is incomplete (missing )'')"
    using w[THEN conjunct2] strict_required by (simp add: quoted_def)
  from strict_resolve strict_init strict_required m show ?thesis by blast
qed

end
